theory Spec2Isabelle
  imports Main
begin

section \<open>Persisted data: the tables behind the Prisma client\<close>

text \<open>
  Identifiers are the strings the source passes around (uuids); a \<open>Date\<close> is a
  timestamp. Every table is a list in the order the database returns its rows; the users
  table is keyed by its primary key. A conversation row carries the user ids of its
  participant rows. Columns that the services only pass through into a response (the
  surrogate ids and creation times of participant and receipt rows, \<open>createdAt\<close> and
  \<open>updatedAt\<close> of conversations, \<open>updatedAt\<close> of messages) are left out.
\<close>

type_synonym ident = string
type_synonym date = nat

text \<open>
  The content of a message is a JavaScript string: a list of UTF-16 code units, which is
  what \<open>trim\<close> and \<open>length\<close> work on.
\<close>

type_synonym jsstring = "nat list"

record user_row =
  username :: string
  isOnline :: bool
  lastSeen :: "date option"

record conversation_row =
  c_id :: ident
  c_participants :: "ident list"
  lastMessageId :: "ident option"
  lastMessageAt :: "date option"

record message_row =
  m_id :: ident
  m_content :: jsstring
  m_authorId :: ident
  m_conversationId :: ident
  m_createdAt :: date

record receipt_row =
  r_messageId :: ident
  r_userId :: ident
  r_readAt :: date

record store =
  users :: "ident \<rightharpoonup> user_row"
  conversations :: "conversation_row list"
  messages :: "message_row list"
  receipts :: "receipt_row list"

text \<open>
  Exceptions are values. \<open>WsException\<close> carries the \<open>type\<close> and \<open>message\<close> of the
  object it is built from; the HTTP exceptions carry their message; \<open>PrismaError\<close> is what
  the database client throws, named by its error code. The message text of such an error is
  the client's own and is only ever read through the cast of a \<open>catch\<close> (see
  \<open>ExtendedError\<close> below).
\<close>

datatype exn =
    WsException string string
  | NotFoundException string
  | BadRequestException string
  | ForbiddenException string
  | ConflictException string
  | PrismaError string

text \<open>JavaScript truthiness of an optional string: \<open>undefined\<close> and \<open>''\<close> are falsy.\<close>

fun truthy :: "string option \<Rightarrow> bool" where
  "truthy None = False"
| "truthy (Some s) = (s \<noteq> [])"

subsection \<open>Response records\<close>

record conversation_res =
  cr_id :: ident
  cr_participants :: "(ident \<times> user_row option) list"
  cr_lastMessage :: "message_row option"

record message_res =
  mr_id :: ident
  mr_content :: jsstring
  mr_authorId :: ident
  mr_conversationId :: ident
  mr_createdAt :: date
  mr_user :: "ident \<times> string"
  mr_readReceipts :: "receipt_row list"

record mark_res =
  mk_message :: string
  messageIds :: "ident list"

subsection \<open>Prisma queries and mutations\<close>

text \<open>\<open>conversation.findFirst({where: {id, participants: {some: {userId}}}})\<close>\<close>

definition conversation_findFirst :: "store \<Rightarrow> ident \<Rightarrow> ident \<Rightarrow> conversation_row option" where
  "conversation_findFirst db cid userId =
     find (\<lambda>c. c_id c = cid \<and> userId \<in> set (c_participants c)) (conversations db)"

text \<open>\<open>conversation.findMany({where: {participants: {some: {userId}}}, select: {id}})\<close>\<close>

definition conversationIdsOf :: "store \<Rightarrow> ident \<Rightarrow> ident list" where
  "conversationIdsOf db userId =
     map c_id (filter (\<lambda>c. userId \<in> set (c_participants c)) (conversations db))"

text \<open>
  \<open>conversation.create({data: {participants: {create: [...]}}})\<close> with the id the database
  assigns. The primary key, the compound unique key \<open>userId_conversationId\<close> of the
  participants and their relation to a user row are the constraints the insert can violate.
\<close>

definition conversation_create ::
  "store \<Rightarrow> ident \<Rightarrow> ident list \<Rightarrow> exn + (conversation_row \<times> store)" where
  "conversation_create db newId participantIds =
     (if newId \<in> set (map c_id (conversations db)) then Inl (PrismaError ''P2002'')
      else if \<not> distinct participantIds then Inl (PrismaError ''P2002'')
      else if \<not> list_all (\<lambda>p. users db p \<noteq> None) participantIds then Inl (PrismaError ''P2003'')
      else
        (let c = \<lparr>c_id = newId, c_participants = participantIds,
                   lastMessageId = None, lastMessageAt = None\<rparr>
         in Inr (c, db\<lparr>conversations := conversations db @ [c]\<rparr>)))"

text \<open>
  The two writes of \<open>MessagesService.create\<close> are separate awaited calls, and each can
  throw for reasons the tables do not show: a value the database cannot store (a NUL in a
  text column, say), a lost connection, a timeout. Which of them throws in a run, and with
  which error code, is the environment's: \<open>faults w = Some code\<close> says that the write \<open>w\<close>
  throws with \<open>code\<close> and writes nothing.
\<close>

datatype prisma_write = MessageCreate | ConversationUpdate

type_synonym faults = "prisma_write \<rightharpoonup> string"

text \<open>\<open>conversation.update({where: {id}, data: {lastMessageId, lastMessageAt}})\<close>\<close>

definition conversation_update ::
  "faults \<Rightarrow> store \<Rightarrow> ident \<Rightarrow> ident \<Rightarrow> date \<Rightarrow> exn + store" where
  "conversation_update faults db cid mid at =
     (case faults ConversationUpdate of
        Some code \<Rightarrow> Inl (PrismaError code)
      | None \<Rightarrow>
          if cid \<in> set (map c_id (conversations db))
          then Inr (db\<lparr>conversations :=
                      map (\<lambda>c. if c_id c = cid
                                then c\<lparr>lastMessageId := Some mid, lastMessageAt := Some at\<rparr>
                                else c) (conversations db)\<rparr>)
          else Inl (PrismaError ''P2025''))"

text \<open>
  \<open>message.create({data: {content, authorId, conversationId}, include: {user, readReceipts}})\<close>
  with the id the database assigns and its clock for \<open>createdAt\<close>.
\<close>

definition message_create ::
  "faults \<Rightarrow> store \<Rightarrow> ident \<Rightarrow> date \<Rightarrow> jsstring \<Rightarrow> ident \<Rightarrow> ident
     \<Rightarrow> exn + (message_res \<times> store)" where
  "message_create faults db newId now content authorId cid =
     (case faults MessageCreate of
        Some code \<Rightarrow> Inl (PrismaError code)
      | None \<Rightarrow>
          if newId \<in> set (map m_id (messages db)) then Inl (PrismaError ''P2002'')
          else if cid \<notin> set (map c_id (conversations db)) then Inl (PrismaError ''P2003'')
          else
            (case users db authorId of
               None \<Rightarrow> Inl (PrismaError ''P2003'')
             | Some u \<Rightarrow>
                 Inr (\<lparr>mr_id = newId, mr_content = content, mr_authorId = authorId,
                        mr_conversationId = cid, mr_createdAt = now,
                        mr_user = (authorId, username u),
                        mr_readReceipts = filter (\<lambda>r. r_messageId r = newId) (receipts db)\<rparr>,
                      db\<lparr>messages := messages db @
                           [\<lparr>m_id = newId, m_content = content, m_authorId = authorId,
                             m_conversationId = cid, m_createdAt = now\<rparr>]\<rparr>)))"

text \<open>
  \<open>messageReadReceipt.createMany({data, skipDuplicates: true})\<close>: a row whose
  \<open>(messageId, userId)\<close> is already there (unique index
  \<open>MessageReadReceipt_messageId_userId_key\<close>) is skipped; a row that points at no message or
  no user violates a foreign key and the whole insert throws.
\<close>

definition hasReceipt :: "receipt_row list \<Rightarrow> ident \<Rightarrow> ident \<Rightarrow> bool" where
  "hasReceipt rs mid uid = list_ex (\<lambda>r. r_messageId r = mid \<and> r_userId r = uid) rs"

fun insertSkipDuplicates :: "date \<Rightarrow> receipt_row list \<Rightarrow> (ident \<times> ident) list \<Rightarrow> receipt_row list" where
  "insertSkipDuplicates now rs [] = rs"
| "insertSkipDuplicates now rs ((mid, uid) # rows) =
     insertSkipDuplicates now
       (if hasReceipt rs mid uid then rs
        else rs @ [\<lparr>r_messageId = mid, r_userId = uid, r_readAt = now\<rparr>]) rows"

definition receipt_createMany :: "store \<Rightarrow> date \<Rightarrow> (ident \<times> ident) list \<Rightarrow> exn + store" where
  "receipt_createMany db now rows =
     (if list_all (\<lambda>(mid, uid). mid \<in> set (map m_id (messages db)) \<and> users db uid \<noteq> None) rows
      then Inr (db\<lparr>receipts := insertSkipDuplicates now (receipts db) rows\<rparr>)
      else Inl (PrismaError ''P2003''))"

text \<open>\<open>user.update({where: {id}, data: {isOnline, lastSeen}})\<close>; an \<open>undefined\<close> field is
  left as it is, and a missing row throws.\<close>

definition prisma_user_update :: "store \<Rightarrow> ident \<Rightarrow> bool \<Rightarrow> date option \<Rightarrow> exn + store" where
  "prisma_user_update db userId online seen =
     (case users db userId of
        None \<Rightarrow> Inl (PrismaError ''P2025'')
      | Some u \<Rightarrow>
          Inr (db\<lparr>users := (users db)(userId \<mapsto>
                 u\<lparr>isOnline := online,
                    lastSeen := (case seen of None \<Rightarrow> lastSeen u | Some d \<Rightarrow> Some d)\<rparr>)\<rparr>))"

section \<open>ConversationsService\<close>

definition toResponse :: "store \<Rightarrow> conversation_row \<Rightarrow> conversation_res" where
  "toResponse db c =
     \<lparr>cr_id = c_id c,
      cr_participants = map (\<lambda>p. (p, users db p)) (c_participants c),
      cr_lastMessage =
        (case lastMessageId c of
           None \<Rightarrow> None
         | Some mid \<Rightarrow> find (\<lambda>m. m_id m = mid) (messages db))\<rparr>"

definition notFoundMsg :: "ident \<Rightarrow> string" where
  "notFoundMsg cid = ''Conversation with ID '' @ cid @ '' not found''"

definition ConversationsService_findOne :: "store \<Rightarrow> ident \<Rightarrow> ident \<Rightarrow> exn + conversation_res" where
  "ConversationsService_findOne db cid userId =
     (case conversation_findFirst db cid userId of
        None \<Rightarrow> Inl (NotFoundException (notFoundMsg cid))
      | Some c \<Rightarrow> Inr (toResponse db c))"

record UpdateConversationDto =
  dto_name :: "string option"

text \<open>\<open>update\<close> returns its result together with the store it leaves behind.\<close>

definition ConversationsService_update ::
  "store \<Rightarrow> ident \<Rightarrow> UpdateConversationDto \<Rightarrow> ident \<Rightarrow> (exn + conversation_res) \<times> store" where
  "ConversationsService_update db cid updateConversationDto userId =
     (case conversation_findFirst db cid userId of
        None \<Rightarrow> (Inl (NotFoundException (notFoundMsg cid)), db)
      | Some c \<Rightarrow> (ConversationsService_findOne db cid userId, db))"

text \<open>
  \<open>findConversationBetweenUsers\<close>: the first conversation all of whose participants are
  among \<open>userIds\<close> and that has at least one of them; \<open>conversation?.id || null\<close>.
\<close>

definition findConversationBetweenUsers :: "store \<Rightarrow> ident list \<Rightarrow> ident option" where
  "findConversationBetweenUsers db userIds =
     (case find (\<lambda>c. list_all (\<lambda>p. p \<in> set userIds) (c_participants c) \<and>
                      list_ex (\<lambda>p. p \<in> set userIds) (c_participants c))
                (conversations db) of
        None \<Rightarrow> None
      | Some c \<Rightarrow> (if c_id c = [] then None else Some (c_id c)))"

definition findOrCreateConversationBetweenUsers ::
  "store \<Rightarrow> ident \<Rightarrow> ident \<Rightarrow> ident \<Rightarrow> (exn + ident) \<times> store" where
  "findOrCreateConversationBetweenUsers db userId1 userId2 newId =
     (let existingConversation = findConversationBetweenUsers db [userId1, userId2] in
      if truthy existingConversation then (Inr (the existingConversation), db)
      else
        (case conversation_create db newId [userId1, userId2] of
           Inl e \<Rightarrow> (Inl e, db)
         | Inr (c, db') \<Rightarrow> (Inr (c_id c), db')))"

section \<open>MessagesService\<close>

record CreateMessageDto =
  dto_content :: jsstring
  dto_conversationId :: "string option"
  dto_recipientId :: "string option"

text \<open>
  \<open>create\<close> first determines the conversation id (the given one, checked for
  membership, or the one found or created for the pair), then inserts the message and moves
  the conversation's last-message pointer. There is no transaction: what an earlier step
  wrote stays when a later one throws.
\<close>

definition MessagesService_create ::
  "faults \<Rightarrow> store \<Rightarrow> ident \<Rightarrow> ident \<Rightarrow> date \<Rightarrow> CreateMessageDto \<Rightarrow> ident
     \<Rightarrow> (exn + message_res) \<times> store" where
  "MessagesService_create faults db newConvId newMsgId now createMessageDto authorId =
     (case
        (if truthy (dto_conversationId createMessageDto) then
           (case ConversationsService_findOne db (the (dto_conversationId createMessageDto)) authorId of
              Inl e \<Rightarrow> (Inl e, db)
            | Inr r \<Rightarrow> (Inr (the (dto_conversationId createMessageDto)), db))
         else if truthy (dto_recipientId createMessageDto) then
           findOrCreateConversationBetweenUsers db authorId
             (the (dto_recipientId createMessageDto)) newConvId
         else (Inl (BadRequestException ''Either conversationId or recipientId must be provided''), db))
      of
        (Inl e, db1) \<Rightarrow> (Inl e, db1)
      | (Inr conversationId, db1) \<Rightarrow>
          (case message_create faults db1 newMsgId now (dto_content createMessageDto) authorId
                  conversationId of
             Inl e \<Rightarrow> (Inl e, db1)
           | Inr (createdMessage, db2) \<Rightarrow>
               (case conversation_update faults db2 conversationId
                       (mr_id createdMessage) (mr_createdAt createdMessage) of
                  Inl e \<Rightarrow> (Inl e, db2)
                | Inr db3 \<Rightarrow> (Inr createdMessage, db3))))"

text \<open>
  \<open>markAsRead\<close>: the unread messages are those of the conversation that someone else wrote
  and that have no receipt of this user.
\<close>

definition unreadMessages :: "store \<Rightarrow> ident \<Rightarrow> ident \<Rightarrow> message_row list" where
  "unreadMessages db conversationId userId =
     filter (\<lambda>m. m_conversationId m = conversationId \<and> m_authorId m \<noteq> userId \<and>
                 \<not> hasReceipt (receipts db) (m_id m) userId) (messages db)"

definition MessagesService_markAsRead ::
  "store \<Rightarrow> date \<Rightarrow> ident \<Rightarrow> ident \<Rightarrow> (exn + mark_res) \<times> store" where
  "MessagesService_markAsRead db now conversationId userId =
     (let unread = unreadMessages db conversationId userId;
          ids = map m_id unread
      in if length unread > 0 then
           (case receipt_createMany db now (map (\<lambda>message. (m_id message, userId)) unread) of
              Inl e \<Rightarrow> (Inl e, db)
            | Inr db1 \<Rightarrow> (Inr \<lparr>mk_message = ''Messages marked as read'', messageIds = ids\<rparr>, db1))
         else (Inr \<lparr>mk_message = ''Messages marked as read'', messageIds = ids\<rparr>, db))"

section \<open>EventsGateway\<close>

subsection \<open>Sockets, events and the gateway's state\<close>

record principal =
  sub :: string
  p_username :: string

record socket =
  socketId :: ident
  user :: "principal option"

record ack =
  success :: bool
  ack_conversationId :: ident

record send_ack =
  sa_success :: bool
  sa_message :: message_res

datatype event =
    ErrorEvent string string "string option"
  | Connected string ident ident
  | ConversationJoined ident string
  | ConversationLeft ident string
  | ConversationStarted ident ident string
  | NewMessage message_res
  | MessageSent string ident
  | MessagesRead ident ident "ident list" date
  | UserOnlineStatusChanged ident bool "date option"
  | UserTyping ident ident
  | UserStoppedTyping ident ident

text \<open>
  Where an event goes: \<open>client.emit\<close> reaches the client, \<open>server.to(room).emit\<close> every
  socket in the room, \<open>client.to(room).emit\<close> every socket in the room but the client.
\<close>

datatype target =
    ToClient ident
  | ToRoom ident
  | ToRoomExceptSender ident ident

text \<open>
  The gateway's three maps, the store behind \<open>this.prisma\<close>, and the rooms each socket
  is in (the state \<open>client.join\<close> and \<open>client.leave\<close> change in the socket server). A
  connected socket is also in the room of its own id: the socket server puts it there when it
  accepts the connection (\<open>server_accept\<close>), before \<open>handleConnection\<close> runs.
\<close>

record gateway =
  prisma :: store
  userRooms :: "ident \<rightharpoonup> ident set"
  socketToUser :: "ident \<rightharpoonup> ident"
  typingUsers :: "ident \<rightharpoonup> ident set"
  rooms :: "ident \<Rightarrow> ident set"

definition receives :: "gateway \<Rightarrow> ident \<Rightarrow> target \<Rightarrow> bool" where
  "receives st s t =
     (case t of
        ToClient c \<Rightarrow> s = c
      | ToRoom r \<Rightarrow> r \<in> rooms st s
      | ToRoomExceptSender r c \<Rightarrow> r \<in> rooms st s \<and> s \<noteq> c)"

definition client_join :: "gateway \<Rightarrow> ident \<Rightarrow> ident \<Rightarrow> gateway" where
  "client_join st s r = st\<lparr>rooms := (rooms st)(s := insert r (rooms st s))\<rparr>"

definition client_leave :: "gateway \<Rightarrow> ident \<Rightarrow> ident \<Rightarrow> gateway" where
  "client_leave st s r = st\<lparr>rooms := (rooms st)(s := rooms st s - {r})\<rparr>"

definition server_accept :: "gateway \<Rightarrow> ident \<Rightarrow> gateway" where
  "server_accept st s = st\<lparr>rooms := (rooms st)(s := insert s (rooms st s))\<rparr>"

text \<open>A disconnected socket is in no room.\<close>

definition client_disconnect :: "gateway \<Rightarrow> ident \<Rightarrow> gateway" where
  "client_disconnect st s = st\<lparr>rooms := (rooms st)(s := {})\<rparr>"

text \<open>\<open>if (!this.userRooms.has(userId)) this.userRooms.set(userId, new Set());
  this.userRooms.get(userId)!.add(conversationId)\<close>, and the same for \<open>typingUsers\<close>.\<close>

definition addTo :: "(ident \<rightharpoonup> ident set) \<Rightarrow> ident \<Rightarrow> ident \<Rightarrow> (ident \<rightharpoonup> ident set)" where
  "addTo m k v = m(k \<mapsto> (case m k of None \<Rightarrow> {v} | Some s \<Rightarrow> insert v s))"

text \<open>\<open>m.get(k)?.delete(v)\<close>\<close>

definition deleteFrom :: "(ident \<rightharpoonup> ident set) \<Rightarrow> ident \<Rightarrow> ident \<Rightarrow> (ident \<rightharpoonup> ident set)" where
  "deleteFrom m k v = (case m k of None \<Rightarrow> m | Some s \<Rightarrow> m(k \<mapsto> s - {v}))"

text \<open>
  \<open>const err = error as ExtendedError\<close>: what the handlers read off a caught exception
  is its \<open>message\<close> and its optional \<open>type\<close>. The exception classes are the framework's, so
  the cast is a parameter \<open>asExt\<close> of every handler that catches.
\<close>

record ExtendedError =
  err_message :: "string option"
  err_type :: "string option"

definition orElse :: "string option \<Rightarrow> string \<Rightarrow> string" where
  "orElse x d = (case x of None \<Rightarrow> d | Some s \<Rightarrow> (if s = [] then d else s))"

definition errorResponse ::
  "(exn \<Rightarrow> ExtendedError) \<Rightarrow> exn \<Rightarrow> string \<Rightarrow> string \<Rightarrow> string option \<Rightarrow> event" where
  "errorResponse asExt e fallbackType fallbackMessage conversationId =
     ErrorEvent (orElse (err_type (asExt e)) fallbackType)
                (orElse (err_message (asExt e)) fallbackMessage) conversationId"

text \<open>
  \<open>String.prototype.trim\<close> removes white space and line terminators from both ends: TAB,
  LF, VT, FF, CR, SPACE, NBSP, the space separators U+1680, U+2000 to U+200A, U+202F, U+205F
  and U+3000, the line and paragraph separators U+2028 and U+2029, and U+FEFF.
\<close>

definition isSpace :: "nat \<Rightarrow> bool" where
  "isSpace c =
     (c \<in> set [0x0009, 0x000A, 0x000B, 0x000C, 0x000D, 0x0020, 0x00A0, 0x1680,
                0x2028, 0x2029, 0x202F, 0x205F, 0x3000, 0xFEFF] \<or>
      (0x2000 \<le> c \<and> c \<le> 0x200A))"

definition trim :: "jsstring \<Rightarrow> jsstring" where
  "trim s = rev (dropWhile isSpace (rev (dropWhile isSpace s)))"

subsection \<open>Presence\<close>

text \<open>
  \<open>updateUserOnlineStatus\<close> writes the flag, then broadcasts to every conversation of the
  user; when the write throws, the catch only logs. One clock reading \<open>now\<close> stands for
  the \<open>new Date()\<close>s of one call.
\<close>

definition updateUserOnlineStatus ::
  "gateway \<Rightarrow> date \<Rightarrow> ident \<Rightarrow> bool \<Rightarrow> gateway \<times> (target \<times> event) list" where
  "updateUserOnlineStatus st now userId online =
     (case prisma_user_update (prisma st) userId online (if online then None else Some now) of
        Inl e \<Rightarrow> (st, [])
      | Inr db1 \<Rightarrow>
          (st\<lparr>prisma := db1\<rparr>,
           map (\<lambda>cid. (ToRoom cid,
                  UserOnlineStatusChanged userId online (if online then None else Some now)))
               (conversationIdsOf db1 userId)))"

definition handleConnection ::
  "gateway \<Rightarrow> date \<Rightarrow> socket \<Rightarrow> gateway \<times> (target \<times> event) list" where
  "handleConnection st now client =
     (let userId = (case user client of None \<Rightarrow> None | Some p \<Rightarrow> Some (sub p)) in
      if \<not> truthy userId then
        (client_disconnect st (socketId client),
         [(ToClient (socketId client),
           ErrorEvent ''AUTHENTICATION_ERROR'' ''Authentication required'' None)])
      else
        (let u = the userId;
             st1 = st\<lparr>socketToUser := (socketToUser st)(socketId client \<mapsto> u)\<rparr>;
             userConversations = conversationIdsOf (prisma st1) u;
             st2 = fold (\<lambda>cid s. client_join s (socketId client) cid) userConversations st1;
             st3 = st2\<lparr>userRooms := (userRooms st2)(u \<mapsto> set userConversations)\<rparr>;
             (st4, ems) = updateUserOnlineStatus st3 now u True
         in (st4, ems @ [(ToClient (socketId client),
                          Connected ''Successfully connected'' u (socketId client))])))"

definition handleDisconnect ::
  "gateway \<Rightarrow> date \<Rightarrow> socket \<Rightarrow> gateway \<times> (target \<times> event) list" where
  "handleDisconnect st now client =
     (let userId = socketToUser st (socketId client);
          (st1, ems) =
            (if truthy userId then
               updateUserOnlineStatus
                 (st\<lparr>socketToUser := (socketToUser st)(socketId client := None),
                     userRooms := (userRooms st)(the userId := None)\<rparr>)
                 now (the userId) False
             else (st, []))
      in (client_disconnect st1 (socketId client), ems))"

subsection \<open>Room management\<close>

record conversation_payload =
  conversationId :: string

definition handleJoinConversation ::
  "(exn \<Rightarrow> ExtendedError) \<Rightarrow> gateway \<Rightarrow> socket \<Rightarrow> conversation_payload option
     \<Rightarrow> gateway \<times> (target \<times> event) list \<times> (exn + ack)" where
  "handleJoinConversation asExt st client payload =
     (let (st1, ems, res) =
        (case payload of
           None \<Rightarrow> (st, [], Inl (WsException ''VALIDATION_ERROR'' ''conversationId is required''))
         | Some p \<Rightarrow>
             if conversationId p = [] then
               (st, [], Inl (WsException ''VALIDATION_ERROR'' ''conversationId is required''))
             else if \<not> truthy (socketToUser st (socketId client)) then
               (st, [], Inl (WsException ''AUTHENTICATION_ERROR'' ''User not authenticated''))
             else
               (let userId = the (socketToUser st (socketId client)) in
                case ConversationsService_findOne (prisma st) (conversationId p) userId of
                  Inl e \<Rightarrow> (st, [], Inl e)
                | Inr r \<Rightarrow>
                    ((client_join st (socketId client) (conversationId p))
                       \<lparr>userRooms := addTo (userRooms st) userId (conversationId p)\<rparr>,
                     [(ToClient (socketId client),
                       ConversationJoined (conversationId p) ''Successfully joined conversation'')],
                     Inr \<lparr>success = True, ack_conversationId = conversationId p\<rparr>)))
      in case res of
           Inl e \<Rightarrow>
             (st1,
              ems @ [(ToClient (socketId client),
                      errorResponse asExt e ''JOIN_CONVERSATION_ERROR'' ''Failed to join conversation''
                        (map_option conversationId payload))],
              Inl e)
         | Inr r \<Rightarrow> (st1, ems, Inr r))"

definition handleLeaveConversation ::
  "(exn \<Rightarrow> ExtendedError) \<Rightarrow> gateway \<Rightarrow> socket \<Rightarrow> conversation_payload option
     \<Rightarrow> gateway \<times> (target \<times> event) list \<times> (exn + ack)" where
  "handleLeaveConversation asExt st client payload =
     (let (st1, ems, res) =
        (case payload of
           None \<Rightarrow> (st, [], Inl (WsException ''VALIDATION_ERROR'' ''conversationId is required''))
         | Some p \<Rightarrow>
             if conversationId p = [] then
               (st, [], Inl (WsException ''VALIDATION_ERROR'' ''conversationId is required''))
             else if \<not> truthy (socketToUser st (socketId client)) then
               (st, [], Inl (WsException ''AUTHENTICATION_ERROR'' ''User not authenticated''))
             else
               (let userId = the (socketToUser st (socketId client)) in
                ((client_leave st (socketId client) (conversationId p))
                   \<lparr>userRooms := deleteFrom (userRooms st) userId (conversationId p)\<rparr>,
                 [(ToClient (socketId client),
                   ConversationLeft (conversationId p) ''Successfully left conversation'')],
                 Inr \<lparr>success = True, ack_conversationId = conversationId p\<rparr>)))
      in case res of
           Inl e \<Rightarrow>
             (st1,
              ems @ [(ToClient (socketId client),
                      errorResponse asExt e ''LEAVE_CONVERSATION_ERROR'' ''Failed to leave conversation''
                        (map_option conversationId payload))],
              Inl e)
         | Inr r \<Rightarrow> (st1, ems, Inr r))"

subsection \<open>Messages\<close>

record send_payload =
  content :: jsstring
  pl_conversationId :: "string option"
  pl_recipientId :: "string option"

record start_payload =
  recipientId :: string

text \<open>
  \<open>handleSendMessage\<close>: the \<open>try\<close> block gives the state it leaves, what it has emitted
  and its outcome; the \<open>catch\<close> adds the error event for the client and rethrows.
  \<open>newConvId\<close> and \<open>newMsgId\<close> are the ids the database would assign, \<open>faults\<close> the
  writes of \<open>create\<close> that throw in this run.
\<close>

definition handleSendMessage ::
  "(exn \<Rightarrow> ExtendedError) \<Rightarrow> faults \<Rightarrow> gateway \<Rightarrow> ident \<Rightarrow> ident \<Rightarrow> date \<Rightarrow> socket
     \<Rightarrow> send_payload option \<Rightarrow> gateway \<times> (target \<times> event) list \<times> (exn + send_ack)" where
  "handleSendMessage asExt faults st newConvId newMsgId now client payload =
     (let (st1, ems, res) =
        (case payload of
           None \<Rightarrow> (st, [], Inl (WsException ''VALIDATION_ERROR'' ''content is required''))
         | Some p \<Rightarrow>
             if content p = [] then
               (st, [], Inl (WsException ''VALIDATION_ERROR'' ''content is required''))
             else if \<not> truthy (pl_conversationId p) \<and> \<not> truthy (pl_recipientId p) then
               (st, [], Inl (WsException ''VALIDATION_ERROR''
                               ''Either conversationId or recipientId is required''))
             else if length (trim (content p)) = 0 then
               (st, [], Inl (WsException ''VALIDATION_ERROR'' ''Message content cannot be empty''))
             else if \<not> truthy (socketToUser st (socketId client)) then
               (st, [], Inl (WsException ''AUTHENTICATION_ERROR'' ''User not authenticated''))
             else
               (case MessagesService_create faults (prisma st) newConvId newMsgId now
                       \<lparr>dto_content = trim (content p),
                        dto_conversationId = pl_conversationId p,
                        dto_recipientId = pl_recipientId p\<rparr>
                       (the (socketToUser st (socketId client))) of
                  (Inl e, db1) \<Rightarrow> (st\<lparr>prisma := db1\<rparr>, [], Inl e)
                | (Inr message, db1) \<Rightarrow>
                    (st\<lparr>prisma := db1\<rparr>,
                     [(ToRoom (mr_conversationId message), NewMessage message),
                      (ToClient (socketId client),
                       MessageSent ''Message sent successfully'' (mr_id message))],
                     Inr \<lparr>sa_success = True, sa_message = message\<rparr>)))
      in case res of
           Inl e \<Rightarrow>
             (st1,
              ems @ [(ToClient (socketId client),
                      errorResponse asExt e ''SEND_MESSAGE_ERROR'' ''Failed to send message''
                        (case payload of
                           None \<Rightarrow> None
                         | Some p \<Rightarrow> (if truthy (pl_conversationId p) then pl_conversationId p
                                       else pl_recipientId p)))],
              Inl e)
         | Inr r \<Rightarrow> (st1, ems, Inr r))"

definition handleStartConversation ::
  "(exn \<Rightarrow> ExtendedError) \<Rightarrow> gateway \<Rightarrow> ident \<Rightarrow> socket \<Rightarrow> start_payload option
     \<Rightarrow> gateway \<times> (target \<times> event) list \<times> (exn + ack)" where
  "handleStartConversation asExt st newConvId client payload =
     (let (st1, ems, res) =
        (case payload of
           None \<Rightarrow> (st, [], Inl (WsException ''VALIDATION_ERROR'' ''recipientId is required''))
         | Some p \<Rightarrow>
             if recipientId p = [] then
               (st, [], Inl (WsException ''VALIDATION_ERROR'' ''recipientId is required''))
             else if \<not> truthy (socketToUser st (socketId client)) then
               (st, [], Inl (WsException ''AUTHENTICATION_ERROR'' ''User not authenticated''))
             else
               (let userId = the (socketToUser st (socketId client)) in
                case findOrCreateConversationBetweenUsers (prisma st) userId (recipientId p) newConvId of
                  (Inl e, db1) \<Rightarrow> (st\<lparr>prisma := db1\<rparr>, [], Inl e)
                | (Inr cid, db1) \<Rightarrow>
                    ((client_join (st\<lparr>prisma := db1\<rparr>) (socketId client) cid)
                       \<lparr>userRooms := addTo (userRooms st) userId cid\<rparr>,
                     [(ToClient (socketId client),
                       ConversationStarted cid (recipientId p) ''Conversation started successfully'')],
                     Inr \<lparr>success = True, ack_conversationId = cid\<rparr>)))
      in case res of
           Inl e \<Rightarrow>
             (st1,
              ems @ [(ToClient (socketId client),
                      errorResponse asExt e ''START_CONVERSATION_ERROR'' ''Failed to start conversation''
                        (map_option recipientId payload))],
              Inl e)
         | Inr r \<Rightarrow> (st1, ems, Inr r))"

text \<open>
  \<open>handleMarkAsRead\<close>: one clock reading \<open>now\<close> stands for the database's \<open>readAt\<close>
  default and for the \<open>new Date()\<close> of the event.
\<close>

definition handleMarkAsRead ::
  "(exn \<Rightarrow> ExtendedError) \<Rightarrow> gateway \<Rightarrow> date \<Rightarrow> socket \<Rightarrow> conversation_payload option
     \<Rightarrow> gateway \<times> (target \<times> event) list \<times> (exn + ack)" where
  "handleMarkAsRead asExt st now client payload =
     (let (st1, ems, res) =
        (case payload of
           None \<Rightarrow> (st, [], Inl (WsException ''VALIDATION_ERROR'' ''conversationId is required''))
         | Some p \<Rightarrow>
             if conversationId p = [] then
               (st, [], Inl (WsException ''VALIDATION_ERROR'' ''conversationId is required''))
             else if \<not> truthy (socketToUser st (socketId client)) then
               (st, [], Inl (WsException ''AUTHENTICATION_ERROR'' ''User not authenticated''))
             else
               (let userId = the (socketToUser st (socketId client)) in
                case MessagesService_markAsRead (prisma st) now (conversationId p) userId of
                  (Inl e, db1) \<Rightarrow> (st\<lparr>prisma := db1\<rparr>, [], Inl e)
                | (Inr result, db1) \<Rightarrow>
                    (st\<lparr>prisma := db1\<rparr>,
                     [(ToRoomExceptSender (conversationId p) (socketId client),
                       MessagesRead (conversationId p) userId (messageIds result) now)],
                     Inr \<lparr>success = True, ack_conversationId = conversationId p\<rparr>)))
      in case res of
           Inl e \<Rightarrow>
             (st1,
              ems @ [(ToClient (socketId client),
                      errorResponse asExt e ''MARK_AS_READ_ERROR'' ''Failed to mark messages as read''
                        (map_option conversationId payload))],
              Inl e)
         | Inr r \<Rightarrow> (st1, ems, Inr r))"

subsection \<open>Typing indicators\<close>

definition handleStartTyping ::
  "gateway \<Rightarrow> socket \<Rightarrow> conversation_payload option \<Rightarrow> gateway \<times> (target \<times> event) list" where
  "handleStartTyping st client payload =
     (case payload of
        None \<Rightarrow> (st, [])
      | Some p \<Rightarrow>
          if conversationId p = [] then (st, [])
          else if \<not> truthy (socketToUser st (socketId client)) then (st, [])
          else
            (let userId = the (socketToUser st (socketId client)) in
             (st\<lparr>typingUsers := addTo (typingUsers st) (conversationId p) userId\<rparr>,
              [(ToRoomExceptSender (conversationId p) (socketId client),
                UserTyping userId (conversationId p))])))"

definition handleStopTyping ::
  "gateway \<Rightarrow> socket \<Rightarrow> conversation_payload option \<Rightarrow> gateway \<times> (target \<times> event) list" where
  "handleStopTyping st client payload =
     (case payload of
        None \<Rightarrow> (st, [])
      | Some p \<Rightarrow>
          if conversationId p = [] then (st, [])
          else if \<not> truthy (socketToUser st (socketId client)) then (st, [])
          else
            (let userId = the (socketToUser st (socketId client)) in
             (st\<lparr>typingUsers := deleteFrom (typingUsers st) (conversationId p) userId\<rparr>,
              [(ToRoomExceptSender (conversationId p) (socketId client),
                UserStoppedTyping userId (conversationId p))])))"

section \<open>Notions the properties are stated with\<close>

text \<open>The events a socket receives out of a list of emissions, given the rooms it is in.\<close>

definition delivered :: "gateway \<Rightarrow> (target \<times> event) list \<Rightarrow> ident \<Rightarrow> event list" where
  "delivered st ems s = map snd (filter (\<lambda>(t, e). receives st s t) ems)"

text \<open>The natural key of the receipts, in table order.\<close>

definition receiptKeys :: "store \<Rightarrow> (ident \<times> ident) list" where
  "receiptKeys db = map (\<lambda>r. (r_messageId r, r_userId r)) (receipts db)"


text \<open>The row a message response stands for.\<close>

definition rowOf :: "message_res \<Rightarrow> message_row" where
  "rowOf m = \<lparr>m_id = mr_id m, m_content = mr_content m, m_authorId = mr_authorId m,
              m_conversationId = mr_conversationId m, m_createdAt = mr_createdAt m\<rparr>"

text \<open>
  The ways the source has to say that the acting user is not allowed: the HTTP
  \<open>ForbiddenException\<close> of the services, or a \<open>WsException\<close> typed as an authorization error.
\<close>

definition isAuthorizationError :: "exn \<Rightarrow> bool" where
  "isAuthorizationError e =
     (case e of
        ForbiddenException m \<Rightarrow> True
      | WsException t m \<Rightarrow> t = ''AUTHORIZATION_ERROR''
      | _ \<Rightarrow> False)"

section \<open>A small deployment to run the handlers on\<close>

text \<open>
  Three users; one conversation \<open>c1\<close> between \<open>u1\<close> and \<open>u2\<close> with three messages of
  \<open>u1\<close>; nobody connected.
\<close>

definition offlineUser :: "string \<Rightarrow> user_row" where
  "offlineUser n = \<lparr>username = n, isOnline = False, lastSeen = None\<rparr>"

text \<open>The code units of an ASCII string.\<close>

definition units :: "string \<Rightarrow> jsstring" where
  "units s = map of_char s"

definition msgOf :: "ident \<Rightarrow> jsstring \<Rightarrow> date \<Rightarrow> message_row" where
  "msgOf i txt at = \<lparr>m_id = i, m_content = txt, m_authorId = ''u1'',
                      m_conversationId = ''c1'', m_createdAt = at\<rparr>"

definition talk :: conversation_row where
  "talk = \<lparr>c_id = ''c1'', c_participants = [''u1'', ''u2''],
            lastMessageId = Some ''m3'', lastMessageAt = Some 3\<rparr>"

definition chatStore :: store where
  "chatStore =
     \<lparr>users = [''u1'' \<mapsto> offlineUser ''ann'', ''u2'' \<mapsto> offlineUser ''bob'',
               ''u3'' \<mapsto> offlineUser ''cy''],
      conversations = [talk],
      messages = [msgOf ''m1'' (units ''hi'') 1, msgOf ''m2'' (units ''there'') 2,
                  msgOf ''m3'' (units ''bob'') 3],
      receipts = []\<rparr>"

definition idle :: gateway where
  "idle = \<lparr>prisma = chatStore, userRooms = Map.empty, socketToUser = Map.empty,
            typingUsers = Map.empty, rooms = (\<lambda>s. {})\<rparr>"

definition sock :: "ident \<Rightarrow> string \<Rightarrow> string \<Rightarrow> socket" where
  "sock s u n = \<lparr>socketId = s, user = Some \<lparr>sub = u, p_username = n\<rparr>\<rparr>"

text \<open>
  A cast for the runs below: an exception the source builds reads as the message it is
  built with, a Prisma error as the text \<open>txt\<close> the client gave it in that run, and none has
  a \<open>type\<close>.
\<close>

definition plainError :: "string \<Rightarrow> exn \<Rightarrow> ExtendedError" where
  "plainError txt e =
     \<lparr>err_message =
        Some (case e of
                WsException t m \<Rightarrow> m | NotFoundException m \<Rightarrow> m | BadRequestException m \<Rightarrow> m
              | ForbiddenException m \<Rightarrow> m | ConflictException m \<Rightarrow> m | PrismaError code \<Rightarrow> txt),
      err_type = None\<rparr>"

text \<open>\<open>u1\<close> connects twice (sockets \<open>s1\<close>, \<open>s2\<close>), \<open>u2\<close> once (\<open>s3\<close>), \<open>u3\<close> once (\<open>s4\<close>).\<close>

definition connect :: "gateway \<Rightarrow> date \<Rightarrow> socket \<Rightarrow> gateway" where
  "connect st now client = fst (handleConnection (server_accept st (socketId client)) now client)"

definition oneSession :: gateway where
  "oneSession = connect idle 10 (sock ''s1'' ''u1'' ''ann'')"

definition twoSessions :: gateway where
  "twoSessions = connect oneSession 11 (sock ''s2'' ''u1'' ''ann'')"

definition allConnected :: gateway where
  "allConnected =
     connect (connect twoSessions 12 (sock ''s3'' ''u2'' ''bob'')) 13 (sock ''s4'' ''u3'' ''cy'')"

text \<open>\<open>u2\<close> has marked \<open>c1\<close> as read once: the store after the service call, and the
  gateway after the handler.\<close>

definition readStore :: store where
  "readStore = snd (MessagesService_markAsRead chatStore 20 ''c1'' ''u2'')"

definition afterRead :: gateway where
  "afterRead =
     fst (handleMarkAsRead (plainError ''(client text)'') allConnected 30 (sock ''s3'' ''u2'' ''bob'')
            (Some \<lparr>conversationId = ''c1''\<rparr>))"

section \<open>Unfolding the definitions\<close>

lemmas ex_defs = idle_def chatStore_def talk_def offlineUser_def msgOf_def sock_def plainError_def
  oneSession_def twoSessions_def allConnected_def readStore_def afterRead_def units_def connect_def
  server_accept_def

lemmas gw_defs = handleConnection_def handleDisconnect_def updateUserOnlineStatus_def
  prisma_user_update_def conversationIdsOf_def client_join_def client_disconnect_def client_leave_def

lemmas svc_defs = MessagesService_markAsRead_def unreadMessages_def hasReceipt_def
  receipt_createMany_def MessagesService_create_def ConversationsService_findOne_def
  conversation_findFirst_def toResponse_def notFoundMsg_def findOrCreateConversationBetweenUsers_def
  findConversationBetweenUsers_def conversation_create_def conversation_update_def message_create_def
  ConversationsService_update_def

section \<open>The deployment, evaluated\<close>

lemma allConnected_sessions:
  "socketToUser allConnected ''s1'' = Some ''u1''" "socketToUser allConnected ''s3'' = Some ''u2''"
  "socketToUser allConnected ''s4'' = Some ''u3''"
  "rooms allConnected ''s1'' = {''c1'', ''s1''}" "rooms allConnected ''s2'' = {''c1'', ''s2''}"
  "rooms allConnected ''s3'' = {''c1'', ''s3''}" "rooms allConnected ''s4'' = {''s4''}"
  by (simp_all add: ex_defs gw_defs Let_def)

lemma allConnected_store:
  "conversations (prisma allConnected) = [talk]"
  "messages (prisma allConnected) =
     [msgOf ''m1'' (units ''hi'') 1, msgOf ''m2'' (units ''there'') 2, msgOf ''m3'' (units ''bob'') 3]"
  "receipts (prisma allConnected) = []"
  "users (prisma allConnected) ''u1'' = Some \<lparr>username = ''ann'', isOnline = True, lastSeen = None\<rparr>"
  "users (prisma allConnected) ''u2'' = Some \<lparr>username = ''bob'', isOnline = True, lastSeen = None\<rparr>"
  "users (prisma allConnected) ''u3'' = Some \<lparr>username = ''cy'', isOnline = True, lastSeen = None\<rparr>"
  "users (prisma allConnected) ''u9'' = None"
  by (simp_all add: ex_defs gw_defs Let_def)

lemma afterRead_facts:
  "socketToUser afterRead ''s3'' = Some ''u2''"
  "unreadMessages (prisma afterRead) ''c1'' ''u2'' = []"
  by (simp_all add: afterRead_def handleMarkAsRead_def sock_def allConnected_sessions allConnected_store
        MessagesService_markAsRead_def unreadMessages_def receipt_createMany_def hasReceipt_def msgOf_def Let_def)

section \<open>Conversations: update and find-or-create\<close>

lemma findFirst_member:
  assumes "c \<in> set (conversations db)" "userId \<in> set (c_participants c)"
  shows "\<exists>c'. conversation_findFirst db (c_id c) userId = Some c' \<and> c_id c' = c_id c"
proof (cases "conversation_findFirst db (c_id c) userId")
  case None
  with assms show ?thesis
    by (auto simp: conversation_findFirst_def find_None_iff)
next
  case (Some c')
  then show ?thesis
    by (auto simp: conversation_findFirst_def dest: find_Some_iff[THEN iffD1])
qed

text \<open>
  C9. For a conversation of the store and one of its participants, \<open>update\<close> returns
  the record \<open>findOne\<close> gives for that id, whatever the payload, and leaves the store as
  it was: the conversation, its participants and its last-message pointer are untouched.
\<close>

theorem update_returns_existing:
  assumes "c \<in> set (conversations db)" "userId \<in> set (c_participants c)"
  shows "\<exists>r. ConversationsService_update db (c_id c) dto userId = (Inr r, db) \<and>
             ConversationsService_findOne db (c_id c) userId = Inr r \<and> cr_id r = c_id c"
proof -
  from findFirst_member[OF assms] obtain c' where
    f: "conversation_findFirst db (c_id c) userId = Some c'" and i: "c_id c' = c_id c" by blast
  show ?thesis
    by (simp add: ConversationsService_update_def ConversationsService_findOne_def f toResponse_def i)
qed

theorem update_returns_existing_witness:
  "talk \<in> set (conversations chatStore) \<and> ''u2'' \<in> set (c_participants talk) \<and>
   ConversationsService_update chatStore ''c1'' \<lparr>dto_name = Some ''Project''\<rparr> ''u2'' =
     (Inr \<lparr>cr_id = ''c1'',
            cr_participants = [(''u1'', Some (offlineUser ''ann'')), (''u2'', Some (offlineUser ''bob''))],
            cr_lastMessage = Some (msgOf ''m3'' (units ''bob'') 3)\<rparr>, chatStore)"
  using update_returns_existing[of talk chatStore "''u2''" "\<lparr>dto_name = Some ''Project''\<rparr>"]
  by (simp add: ex_defs svc_defs)

lemma findBetween_commute:
  "findConversationBetweenUsers db [b, a] = findConversationBetweenUsers db [a, b]"
proof -
  have "set [b, a] = set [a, b]" by auto
  then show ?thesis unfolding findConversationBetweenUsers_def by simp
qed

lemma findBetween_nonempty:
  "findConversationBetweenUsers db us = Some cid \<Longrightarrow> cid \<noteq> []"
  by (auto simp: findConversationBetweenUsers_def split: option.splits if_splits)

lemma findOrCreate_found:
  assumes "findConversationBetweenUsers db [a, b] = Some cid"
  shows "findOrCreateConversationBetweenUsers db a b newId = (Inr cid, db)"
  using assms findBetween_nonempty[OF assms]
  by (simp add: findOrCreateConversationBetweenUsers_def)

lemma find_snoc_new:
  assumes "find P xs = None" "P x"
  shows "find P (xs @ [x]) = Some x"
  using assms by (induction xs) (auto split: if_splits)

lemma find_nonempty_id:
  assumes "list_all (\<lambda>c. c_id c \<noteq> []) cs" "find P cs = Some c"
  shows "c_id c \<noteq> []"
proof -
  from assms(2) have "c \<in> set cs" by (auto simp: find_Some_iff)
  with assms(1) show ?thesis by (simp add: list_all_iff)
qed

lemma findBetween_after_create:
  assumes none: "findConversationBetweenUsers db [a, b] = None"
      and ids: "list_all (\<lambda>c. c_id c \<noteq> []) (conversations db)"
      and new: "newId \<noteq> []"
  shows "findConversationBetweenUsers
           (db\<lparr>conversations := conversations db @
                 [\<lparr>c_id = newId, c_participants = [a, b],
                    lastMessageId = None, lastMessageAt = None\<rparr>]\<rparr>) [a, b] = Some newId"
proof -
  let ?P = "\<lambda>c. list_all (\<lambda>p. p \<in> set [a, b]) (c_participants c) \<and>
                 list_ex (\<lambda>p. p \<in> set [a, b]) (c_participants c)"
  have "find ?P (conversations db) = None"
  proof (cases "find ?P (conversations db)")
    case None then show ?thesis .
  next
    case (Some c)
    have "c_id c \<noteq> []" using ids Some by (rule find_nonempty_id)
    with Some none show ?thesis by (simp add: findConversationBetweenUsers_def)
  qed
  then have "find ?P (conversations db @
                 [\<lparr>c_id = newId, c_participants = [a, b],
                    lastMessageId = None, lastMessageAt = None\<rparr>]) =
             Some \<lparr>c_id = newId, c_participants = [a, b],
                    lastMessageId = None, lastMessageAt = None\<rparr>"
    by (rule find_snoc_new) simp
  then show ?thesis using new by (simp add: findConversationBetweenUsers_def)
qed

text \<open>
  C6. For two different users of the store, with ids that are never the empty string and
  a fresh id for a row the first call may insert: \<open>findOrCreateConversationBetweenUsers\<close>
  returns an id, and a second call for the pair, in either order, returns the same id and
  leaves the store it found. The lookup comes before any insert, so the pair gets no second
  conversation.
\<close>

theorem startConversation_same_id:
  assumes "userId1 \<noteq> userId2"
      and "users db userId1 \<noteq> None" and "users db userId2 \<noteq> None"
      and "newId \<noteq> []" and "newId \<notin> set (map c_id (conversations db))"
      and "list_all (\<lambda>c. c_id c \<noteq> []) (conversations db)"
  shows "\<exists>cid db1.
           findOrCreateConversationBetweenUsers db userId1 userId2 newId = (Inr cid, db1) \<and>
           findOrCreateConversationBetweenUsers db1 userId1 userId2 newId' = (Inr cid, db1) \<and>
           findOrCreateConversationBetweenUsers db1 userId2 userId1 newId' = (Inr cid, db1)"
proof (cases "findConversationBetweenUsers db [userId1, userId2]")
  case (Some cid)
  then have "findConversationBetweenUsers db [userId2, userId1] = Some cid"
    by (simp add: findBetween_commute)
  with Some show ?thesis by (simp add: findOrCreate_found)
next
  case None
  let ?c = "\<lparr>c_id = newId, c_participants = [userId1, userId2],
              lastMessageId = None, lastMessageAt = None\<rparr>"
  let ?db1 = "db\<lparr>conversations := conversations db @ [?c]\<rparr>"
  have first: "findOrCreateConversationBetweenUsers db userId1 userId2 newId = (Inr newId, ?db1)"
    using None assms
    by (simp add: findOrCreateConversationBetweenUsers_def conversation_create_def Let_def)
  have again: "findConversationBetweenUsers ?db1 [userId1, userId2] = Some newId"
    using None assms(6) assms(4) by (rule findBetween_after_create)
  then have swapped: "findConversationBetweenUsers ?db1 [userId2, userId1] = Some newId"
    by (simp add: findBetween_commute)
  show ?thesis
    using first findOrCreate_found[OF again] findOrCreate_found[OF swapped] by blast
qed

theorem startConversation_same_id_witness:
  "''u2'' \<noteq> ''u3'' \<and> users chatStore ''u2'' \<noteq> None \<and> users chatStore ''u3'' \<noteq> None \<and>
   ''c2'' \<notin> set (map c_id (conversations chatStore)) \<and>
   fst (findOrCreateConversationBetweenUsers chatStore ''u2'' ''u3'' ''c2'') = Inr ''c2'' \<and>
   fst (findOrCreateConversationBetweenUsers
          (snd (findOrCreateConversationBetweenUsers chatStore ''u2'' ''u3'' ''c2''))
          ''u3'' ''u2'' ''c3'') = Inr ''c2'' \<and>
   map c_id (conversations (snd (findOrCreateConversationBetweenUsers
          (snd (findOrCreateConversationBetweenUsers chatStore ''u2'' ''u3'' ''c2''))
          ''u3'' ''u2'' ''c3''))) = [''c1'', ''c2'']"
proof -
  have h: "''u2'' \<noteq> ''u3''" "users chatStore ''u2'' \<noteq> None" "users chatStore ''u3'' \<noteq> None"
    "''c2'' \<noteq> []" "''c2'' \<notin> set (map c_id (conversations chatStore))"
    "list_all (\<lambda>c. c_id c \<noteq> []) (conversations chatStore)"
    by (simp_all add: ex_defs)
  from startConversation_same_id[OF h, of "''c3''"] obtain cid db1 where
    r: "findOrCreateConversationBetweenUsers chatStore ''u2'' ''u3'' ''c2'' = (Inr cid, db1)"
       "findOrCreateConversationBetweenUsers db1 ''u3'' ''u2'' ''c3'' = (Inr cid, db1)"
    by blast
  have v: "findOrCreateConversationBetweenUsers chatStore ''u2'' ''u3'' ''c2'' =
      (Inr ''c2'', chatStore\<lparr>conversations := [talk,
          \<lparr>c_id = ''c2'', c_participants = [''u2'', ''u3''], lastMessageId = None, lastMessageAt = None\<rparr>]\<rparr>)"
    by (simp add: ex_defs svc_defs Let_def)
  have c: "conversations (chatStore\<lparr>conversations := [talk,
          \<lparr>c_id = ''c2'', c_participants = [''u2'', ''u3''], lastMessageId = None, lastMessageAt = None\<rparr>]\<rparr>) = [talk,
          \<lparr>c_id = ''c2'', c_participants = [''u2'', ''u3''], lastMessageId = None, lastMessageAt = None\<rparr>]"
    by simp
  from r(1) v have e: "cid = ''c2''" "db1 = chatStore\<lparr>conversations := [talk,
          \<lparr>c_id = ''c2'', c_participants = [''u2'', ''u3''], lastMessageId = None, lastMessageAt = None\<rparr>]\<rparr>"
    by auto
  have "fst (findOrCreateConversationBetweenUsers chatStore ''u2'' ''u3'' ''c2'') = Inr ''c2''"
    "snd (findOrCreateConversationBetweenUsers chatStore ''u2'' ''u3'' ''c2'') = db1"
    "fst (findOrCreateConversationBetweenUsers db1 ''u3'' ''u2'' ''c3'') = Inr ''c2''"
    "snd (findOrCreateConversationBetweenUsers db1 ''u3'' ''u2'' ''c3'') = db1"
    "map c_id (conversations db1) = [''c1'', ''c2'']"
    using r e c by (simp_all add: talk_def)
  with h show ?thesis by simp
qed

text \<open>
  The \<open>startConversation\<close> handler acknowledges the id the service returns and joins
  its room.
\<close>

lemma startConversation_acks_service_id:
  assumes "recipientId p \<noteq> []" "socketToUser st (socketId client) = Some u" "u \<noteq> []"
      and "findOrCreateConversationBetweenUsers (prisma st) u (recipientId p) newConvId = (Inr cid, db1)"
  shows "snd (snd (handleStartConversation asExt st newConvId client (Some p))) =
           Inr \<lparr>success = True, ack_conversationId = cid\<rparr> \<and>
         cid \<in> rooms (fst (handleStartConversation asExt st newConvId client (Some p))) (socketId client) \<and>
         prisma (fst (handleStartConversation asExt st newConvId client (Some p))) = db1"
  using assms by (simp add: handleStartConversation_def client_join_def)

section \<open>Read receipts\<close>

lemma hasReceipt_append:
  "hasReceipt (rs @ [\<lparr>r_messageId = m, r_userId = u, r_readAt = t\<rparr>]) mid uid =
     (hasReceipt rs mid uid \<or> (m = mid \<and> u = uid))"
  by (auto simp: hasReceipt_def)

lemma hasReceipt_insertSkipDuplicates:
  "hasReceipt (insertSkipDuplicates now rs rows) mid uid =
     (hasReceipt rs mid uid \<or> (mid, uid) \<in> set rows)"
  by (induction now rs rows rule: insertSkipDuplicates.induct)
     (auto simp: hasReceipt_append)


lemma hasReceipt_keys: "hasReceipt rs mid uid = ((mid, uid) \<in> set (map (\<lambda>r. (r_messageId r, r_userId r)) rs))"
  by (auto simp: hasReceipt_def list_ex_iff)

lemma insertSkipDuplicates_distinct:
  "distinct (map (\<lambda>r. (r_messageId r, r_userId r)) rs) \<Longrightarrow>
   distinct (map (\<lambda>r. (r_messageId r, r_userId r)) (insertSkipDuplicates now rs rows))"
  by (induction now rs rows rule: insertSkipDuplicates.induct)
     (auto simp: hasReceipt_keys)

lemma unread_after_createMany:
  "unreadMessages (db\<lparr>receipts := insertSkipDuplicates now (receipts db)
        (map (\<lambda>message. (m_id message, u)) (unreadMessages db c u))\<rparr>) c u = []"
  by (auto simp: unreadMessages_def hasReceipt_insertSkipDuplicates filter_empty_conv)

text \<open>
  C5. \<open>markAsRead\<close> is idempotent for a conversation and a user: after a call that
  succeeded, a second call finds nothing unread, succeeds with no message ids and leaves the
  store of the first call; and the first call keeps the \<open>(messageId, userId)\<close> keys of the
  receipts free of duplicates.
\<close>

theorem markAsRead_twice:
  assumes "MessagesService_markAsRead db t1 c u = (Inr r1, db1)"
  shows "MessagesService_markAsRead db1 t2 c u =
           (Inr \<lparr>mk_message = ''Messages marked as read'', messageIds = []\<rparr>, db1) \<and>
         (distinct (receiptKeys db) \<longrightarrow> distinct (receiptKeys db1))"
proof -
  have u: "unreadMessages db1 c u = []"
    using assms unread_after_createMany[where db=db and now=t1 and c=c and u=u]
    by (auto simp: MessagesService_markAsRead_def Let_def receipt_createMany_def
             split: if_splits sum.splits)
  have d: "distinct (receiptKeys db) \<longrightarrow> distinct (receiptKeys db1)"
    using assms
    by (auto simp: MessagesService_markAsRead_def Let_def receipt_createMany_def receiptKeys_def
                   insertSkipDuplicates_distinct
             split: if_splits sum.splits)
  show ?thesis using u d by (simp add: MessagesService_markAsRead_def)
qed

theorem markAsRead_twice_witness:
  "MessagesService_markAsRead chatStore 20 ''c1'' ''u2'' =
     (Inr \<lparr>mk_message = ''Messages marked as read'', messageIds = [''m1'', ''m2'', ''m3'']\<rparr>, readStore) \<and>
   MessagesService_markAsRead readStore 21 ''c1'' ''u2'' =
     (Inr \<lparr>mk_message = ''Messages marked as read'', messageIds = []\<rparr>, readStore) \<and>
   receiptKeys readStore = [(''m1'', ''u2''), (''m2'', ''u2''), (''m3'', ''u2'')]"
proof -
  have first: "MessagesService_markAsRead chatStore 20 ''c1'' ''u2'' =
     (Inr \<lparr>mk_message = ''Messages marked as read'', messageIds = [''m1'', ''m2'', ''m3'']\<rparr>, readStore)"
    by (simp add: ex_defs svc_defs)
  have keys: "receiptKeys readStore = [(''m1'', ''u2''), (''m2'', ''u2''), (''m3'', ''u2'')]"
    by (simp add: ex_defs svc_defs receiptKeys_def)
  from markAsRead_twice[OF first, of 21] first keys show ?thesis by simp
qed








text \<open>
  C10. When the caller has nothing unread in the conversation (a repeated call, say),
  \<open>markAsRead\<close> still succeeds, changes nothing, and still emits \<open>messagesRead\<close> to the
  room with an empty list of ids.
\<close>

theorem markAsRead_nothing_unread:
  assumes payload: "conversationId p \<noteq> []"
      and session: "socketToUser st (socketId client) = Some u" "u \<noteq> []"
      and none: "unreadMessages (prisma st) (conversationId p) u = []"
  shows "handleMarkAsRead asExt st now client (Some p) =
           (st,
            [(ToRoomExceptSender (conversationId p) (socketId client),
              MessagesRead (conversationId p) u [] now)],
            Inr \<lparr>success = True, ack_conversationId = conversationId p\<rparr>)"
  using assms by (simp add: handleMarkAsRead_def MessagesService_markAsRead_def)

theorem markAsRead_nothing_unread_witness:
  "socketToUser afterRead ''s3'' = Some ''u2'' \<and>
   unreadMessages (prisma afterRead) ''c1'' ''u2'' = [] \<and>
   handleMarkAsRead (plainError ''(client text)'') afterRead 31 (sock ''s3'' ''u2'' ''bob'') (Some \<lparr>conversationId = ''c1''\<rparr>) =
     (afterRead,
      [(ToRoomExceptSender ''c1'' ''s3'', MessagesRead ''c1'' ''u2'' [] 31)],
      Inr \<lparr>success = True, ack_conversationId = ''c1''\<rparr>)"
  using markAsRead_nothing_unread[of "\<lparr>conversationId = ''c1''\<rparr>" afterRead "sock ''s3'' ''u2'' ''bob''" "''u2''" "plainError ''(client text)''" 31]
  by (simp add: afterRead_facts sock_def)

text \<open>
  \<open>markAsRead\<close> hands the payload's \<open>conversationId\<close> to \<open>client.to\<close> as it is: when it is
  the id of another socket, that socket receives the event through the room of its own id.
\<close>

lemma markAsRead_addresses_socket_room:
  "delivered allConnected
     (fst (snd (handleMarkAsRead (plainError ''(client text)'') allConnected 30 (sock ''s3'' ''u2'' ''bob'')
                  (Some \<lparr>conversationId = ''s1''\<rparr>)))) ''s1'' =
     [MessagesRead ''s1'' ''u2'' [] 30]"
  by (simp add: handleMarkAsRead_def sock_def allConnected_sessions allConnected_store
        MessagesService_markAsRead_def unreadMessages_def msgOf_def delivered_def receives_def)

section \<open>Sending a message\<close>

lemma trim_unicode_space:
  "trim [0x00A0, 0x3000, 0x0020] = [] \<and> trim (0xFEFF # units ''a b'' @ [0x2028]) = units ''a b''"
  by (simp add: trim_def isSpace_def units_def)

lemma sendMessage_rejects_blank:
  assumes "content p \<noteq> []" "truthy (pl_conversationId p) \<or> truthy (pl_recipientId p)"
      and "trim (content p) = []"
  shows "snd (snd (handleSendMessage asExt faults st newConvId newMsgId now client (Some p))) =
           Inl (WsException ''VALIDATION_ERROR'' ''Message content cannot be empty'') \<and>
         fst (handleSendMessage asExt faults st newConvId newMsgId now client (Some p)) = st"
  using assms by (auto simp: handleSendMessage_def)

lemma findOrCreate_messages:
  "findOrCreateConversationBetweenUsers db a b n = (r, db1) \<Longrightarrow> messages db1 = messages db"
  by (auto simp: findOrCreateConversationBetweenUsers_def conversation_create_def Let_def
           split: if_splits sum.splits)

lemma determine_messages:
  assumes "(if truthy (dto_conversationId dto) then
              (case ConversationsService_findOne db (the (dto_conversationId dto)) a of
                 Inl e \<Rightarrow> (Inl e, db)
               | Inr r \<Rightarrow> (Inr (the (dto_conversationId dto)), db))
            else if truthy (dto_recipientId dto) then
              findOrCreateConversationBetweenUsers db a (the (dto_recipientId dto)) nc
            else (Inl (BadRequestException ''Either conversationId or recipientId must be provided''), db))
           = (r, db1)"
  shows "messages db1 = messages db"
  using assms
  by (auto split: if_splits sum.splits dest: findOrCreate_messages)

lemma pointer_moved:
  "cid \<in> set (map c_id cs) \<Longrightarrow>
   list_ex (\<lambda>c. c_id c = cid \<and> lastMessageId c = Some mid)
     (map (\<lambda>c. if c_id c = cid then c\<lparr>lastMessageId := Some mid, lastMessageAt := Some at\<rparr> else c) cs)"
  by (induction cs) auto

lemma message_create_inserts:
  assumes "message_create faults db1 nm now txt a cid = Inr (m, db2)"
  shows "faults MessageCreate = None \<and> messages db2 = messages db1 @ [rowOf m] \<and>
         conversations db2 = conversations db1 \<and> mr_id m = nm \<and> mr_conversationId m = cid \<and>
         cid \<in> set (map c_id (conversations db1))"
  using assms
  by (auto simp: message_create_def rowOf_def split: if_splits option.splits)

lemma message_create_fault:
  "faults MessageCreate = Some code \<Longrightarrow>
   message_create faults db1 nm now txt a cid = Inl (PrismaError code)"
  by (simp add: message_create_def)

lemma conversation_update_after_insert:
  assumes "cid \<in> set (map c_id (conversations db2))"
  shows "conversation_update faults db2 cid mid at =
           (case faults ConversationUpdate of
              Some code \<Rightarrow> Inl (PrismaError code)
            | None \<Rightarrow>
                Inr (db2\<lparr>conversations :=
                       map (\<lambda>c. if c_id c = cid
                                 then c\<lparr>lastMessageId := Some mid, lastMessageAt := Some at\<rparr>
                                 else c) (conversations db2)\<rparr>))"
  using assms by (simp add: conversation_update_def split: option.splits)

text \<open>
  What \<open>create\<close> leaves behind. When it throws, the messages table is as before, or the
  insert went through and the pointer update threw, and then the new row stays. When it
  returns, neither write threw, the row is in the table and the pointer is on it.
\<close>

lemma create_outcome:
  assumes "MessagesService_create faults db nc nm now dto a = (res, db')"
  shows "case res of
           Inl e \<Rightarrow>
             messages db' = messages db \<or>
             (faults MessageCreate = None \<and>
              (\<exists>code row. faults ConversationUpdate = Some code \<and> e = PrismaError code \<and>
                          m_id row = nm \<and> messages db' = messages db @ [row]))
         | Inr m \<Rightarrow>
             faults MessageCreate = None \<and> faults ConversationUpdate = None \<and>
             rowOf m \<in> set (messages db') \<and>
             list_ex (\<lambda>c. c_id c = mr_conversationId m \<and> lastMessageId c = Some (mr_id m))
               (conversations db')"
proof -
  obtain r db1 where det:
    "(if truthy (dto_conversationId dto) then
        (case ConversationsService_findOne db (the (dto_conversationId dto)) a of
           Inl e \<Rightarrow> (Inl e, db)
         | Inr r \<Rightarrow> (Inr (the (dto_conversationId dto)), db))
      else if truthy (dto_recipientId dto) then
        findOrCreateConversationBetweenUsers db a (the (dto_recipientId dto)) nc
      else (Inl (BadRequestException ''Either conversationId or recipientId must be provided''), db))
     = (r, db1)"
    by (cases "(if truthy (dto_conversationId dto) then
        (case ConversationsService_findOne db (the (dto_conversationId dto)) a of
           Inl e \<Rightarrow> (Inl e, db)
         | Inr r \<Rightarrow> (Inr (the (dto_conversationId dto)), db))
      else if truthy (dto_recipientId dto) then
        findOrCreateConversationBetweenUsers db a (the (dto_recipientId dto)) nc
      else (Inl (BadRequestException ''Either conversationId or recipientId must be provided''), db))") auto
  have m1: "messages db1 = messages db" using det by (rule determine_messages)
  show ?thesis
  proof (cases r)
    case (Inl e)
    with det assms m1 show ?thesis by (auto simp: MessagesService_create_def)
  next
    case (Inr cid)
    show ?thesis
    proof (cases "message_create faults db1 nm now (dto_content dto) a cid")
      case (Inl e)
      with det Inr assms m1 show ?thesis by (auto simp: MessagesService_create_def)
    next
      case mc: (Inr mdb)
      obtain m db2 where mdb: "mdb = (m, db2)" by (cases mdb)
      from message_create_inserts[OF mc[unfolded mdb]] have
        ins: "faults MessageCreate = None" "messages db2 = messages db1 @ [rowOf m]"
          "conversations db2 = conversations db1" "mr_id m = nm" "mr_conversationId m = cid"
          "cid \<in> set (map c_id (conversations db1))"
        by simp_all
      from ins(3,6) have c2: "cid \<in> set (map c_id (conversations db2))" by simp
      note upd = conversation_update_after_insert[OF c2, of faults "mr_id m" "mr_createdAt m"]
      show ?thesis
      proof (cases "faults ConversationUpdate")
        case None
        with upd have u: "conversation_update faults db2 cid (mr_id m) (mr_createdAt m) =
            Inr (db2\<lparr>conversations :=
                   map (\<lambda>c. if c_id c = cid
                             then c\<lparr>lastMessageId := Some (mr_id m),
                                     lastMessageAt := Some (mr_createdAt m)\<rparr>
                             else c) (conversations db2)\<rparr>)"
          by simp
        have ptr: "list_ex (\<lambda>c. c_id c = cid \<and> lastMessageId c = Some (mr_id m))
            (map (\<lambda>c. if c_id c = cid
                      then c\<lparr>lastMessageId := Some (mr_id m),
                              lastMessageAt := Some (mr_createdAt m)\<rparr>
                      else c) (conversations db2))"
          using c2 by (rule pointer_moved)
        from assms det Inr mc mdb u have
          "res = Inr m" "db' = db2\<lparr>conversations :=
                   map (\<lambda>c. if c_id c = cid
                             then c\<lparr>lastMessageId := Some (mr_id m),
                                     lastMessageAt := Some (mr_createdAt m)\<rparr>
                             else c) (conversations db2)\<rparr>"
          by (auto simp: MessagesService_create_def)
        with None ins(1,2,5) ptr show ?thesis by simp
      next
        case (Some code)
        with upd have u: "conversation_update faults db2 cid (mr_id m) (mr_createdAt m) =
            Inl (PrismaError code)"
          by simp
        from assms det Inr mc mdb u have "res = Inl (PrismaError code)" "db' = db2"
          by (auto simp: MessagesService_create_def)
        moreover have "m_id (rowOf m) = nm" using ins(4) by (simp add: rowOf_def)
        ultimately show ?thesis using Some ins(1,2) m1 by auto
      qed
    qed
  qed
qed

text \<open>
  C8, as amended. Whatever \<open>sendMessage\<close> is given and whichever write throws: when the
  handler fails, the only emission is the error event to the caller, so no \<open>newMessage\<close>
  goes to any room; the messages table is then as before, unless the insert went through and
  the pointer update threw, in which case the new row stays persisted without fan-out (the two
  writes are not one transaction). When the handler succeeds, neither write threw, and the
  \<open>newMessage\<close> it sends to the room is the message that is then in the messages table, with
  the conversation's last-message pointer on it, followed by \<open>messageSent\<close> to the caller.
\<close>

theorem fanout_only_after_both_writes:
  assumes "handleSendMessage asExt faults st newConvId newMsgId now client payload = (st', ems, res)"
  shows "case res of
           Inl e \<Rightarrow>
             ems = [(ToClient (socketId client),
                     errorResponse asExt e ''SEND_MESSAGE_ERROR'' ''Failed to send message''
                       (case payload of
                          None \<Rightarrow> None
                        | Some p \<Rightarrow> (if truthy (pl_conversationId p) then pl_conversationId p
                                      else pl_recipientId p)))] \<and>
             (messages (prisma st') = messages (prisma st) \<or>
              (faults MessageCreate = None \<and>
               (\<exists>code row. faults ConversationUpdate = Some code \<and> e = PrismaError code \<and>
                           m_id row = newMsgId \<and>
                           messages (prisma st') = messages (prisma st) @ [row])))
         | Inr r \<Rightarrow>
             faults MessageCreate = None \<and> faults ConversationUpdate = None \<and>
             ems = [(ToRoom (mr_conversationId (sa_message r)), NewMessage (sa_message r)),
                    (ToClient (socketId client),
                     MessageSent ''Message sent successfully'' (mr_id (sa_message r)))] \<and>
             rowOf (sa_message r) \<in> set (messages (prisma st')) \<and>
             list_ex (\<lambda>c. c_id c = mr_conversationId (sa_message r) \<and>
                           lastMessageId c = Some (mr_id (sa_message r)))
               (conversations (prisma st'))"
proof (cases "\<exists>p. payload = Some p \<and> content p \<noteq> [] \<and>
                  (truthy (pl_conversationId p) \<or> truthy (pl_recipientId p)) \<and>
                  trim (content p) \<noteq> [] \<and> truthy (socketToUser st (socketId client))")
  case False
  then show ?thesis using assms
    by (auto simp: handleSendMessage_def split: option.splits if_splits)
next
  case True
  then obtain p where p: "payload = Some p" "content p \<noteq> []"
      "truthy (pl_conversationId p) \<or> truthy (pl_recipientId p)"
      "trim (content p) \<noteq> []" "truthy (socketToUser st (socketId client))" by blast
  obtain r db1 where c: "MessagesService_create faults (prisma st) newConvId newMsgId now
                       \<lparr>dto_content = trim (content p),
                        dto_conversationId = pl_conversationId p,
                        dto_recipientId = pl_recipientId p\<rparr>
                       (the (socketToUser st (socketId client))) = (r, db1)"
    by (cases "MessagesService_create faults (prisma st) newConvId newMsgId now
                       \<lparr>dto_content = trim (content p),
                        dto_conversationId = pl_conversationId p,
                        dto_recipientId = pl_recipientId p\<rparr>
                       (the (socketToUser st (socketId client)))") auto
  show ?thesis
  proof (cases r)
    case (Inl e)
    with create_outcome[OF c] have
      o: "messages db1 = messages (prisma st) \<or>
          (faults MessageCreate = None \<and>
           (\<exists>code row. faults ConversationUpdate = Some code \<and> e = PrismaError code \<and>
                       m_id row = newMsgId \<and> messages db1 = messages (prisma st) @ [row]))"
      by simp
    from p c Inl assms have "st' = st\<lparr>prisma := db1\<rparr>" "res = Inl e"
      "ems = [(ToClient (socketId client),
               errorResponse asExt e ''SEND_MESSAGE_ERROR'' ''Failed to send message''
                 (if truthy (pl_conversationId p) then pl_conversationId p else pl_recipientId p))]"
      by (auto simp: handleSendMessage_def)
    with o p(1) show ?thesis by simp
  next
    case (Inr m)
    with create_outcome[OF c] have
      o: "faults MessageCreate = None" "faults ConversationUpdate = None"
         "rowOf m \<in> set (messages db1)"
         "list_ex (\<lambda>c. c_id c = mr_conversationId m \<and> lastMessageId c = Some (mr_id m))
            (conversations db1)"
      by simp_all
    from p c Inr assms have "st' = st\<lparr>prisma := db1\<rparr>"
      "res = Inr \<lparr>sa_success = True, sa_message = m\<rparr>"
      "ems = [(ToRoom (mr_conversationId m), NewMessage m),
              (ToClient (socketId client), MessageSent ''Message sent successfully'' (mr_id m))]"
      by (auto simp: handleSendMessage_def)
    with o show ?thesis by simp
  qed
qed

lemma send_evaluated:
  "handleSendMessage (plainError txt) Map.empty allConnected ''c9'' ''m9'' 30 (sock ''s3'' ''u2'' ''bob'')
       (Some \<lparr>content = units ''yo'', pl_conversationId = Some ''c1'', pl_recipientId = rcp\<rparr>) =
     (allConnected\<lparr>prisma := (prisma allConnected)
         \<lparr>conversations := [talk\<lparr>lastMessageId := Some ''m9'', lastMessageAt := Some 30\<rparr>],
          messages := messages (prisma allConnected) @
            [\<lparr>m_id = ''m9'', m_content = units ''yo'', m_authorId = ''u2'',
              m_conversationId = ''c1'', m_createdAt = 30\<rparr>]\<rparr>\<rparr>,
      [(ToRoom ''c1'',
        NewMessage \<lparr>mr_id = ''m9'', mr_content = units ''yo'', mr_authorId = ''u2'',
                    mr_conversationId = ''c1'', mr_createdAt = 30, mr_user = (''u2'', ''bob''),
                    mr_readReceipts = []\<rparr>),
       (ToClient ''s3'', MessageSent ''Message sent successfully'' ''m9'')],
      Inr \<lparr>sa_success = True, sa_message =
        \<lparr>mr_id = ''m9'', mr_content = units ''yo'', mr_authorId = ''u2'',
          mr_conversationId = ''c1'', mr_createdAt = 30, mr_user = (''u2'', ''bob''),
          mr_readReceipts = []\<rparr>\<rparr>)"
  by (simp add: handleSendMessage_def sock_def allConnected_sessions allConnected_store svc_defs
        talk_def trim_def isSpace_def units_def Let_def msgOf_def)

lemma insert_fault_evaluated:
  "handleSendMessage (plainError txt) [MessageCreate \<mapsto> ''P2000''] allConnected ''c9'' ''m9'' 30
       (sock ''s3'' ''u2'' ''bob'')
       (Some \<lparr>content = units ''yo'', pl_conversationId = Some ''c1'', pl_recipientId = None\<rparr>) =
     (allConnected,
      [(ToClient ''s3'', ErrorEvent ''SEND_MESSAGE_ERROR'' (orElse (Some txt) ''Failed to send message'')
                           (Some ''c1''))],
      Inl (PrismaError ''P2000''))"
  by (simp add: handleSendMessage_def sock_def allConnected_sessions allConnected_store svc_defs
        talk_def trim_def isSpace_def units_def Let_def msgOf_def errorResponse_def plainError_def
        orElse_def)

lemma pointer_fault_evaluated:
  "handleSendMessage (plainError txt) [ConversationUpdate \<mapsto> ''P1017''] allConnected ''c9'' ''m9'' 30
       (sock ''s3'' ''u2'' ''bob'')
       (Some \<lparr>content = units ''yo'', pl_conversationId = Some ''c1'', pl_recipientId = None\<rparr>) =
     (allConnected\<lparr>prisma := (prisma allConnected)
         \<lparr>messages := messages (prisma allConnected) @
            [\<lparr>m_id = ''m9'', m_content = units ''yo'', m_authorId = ''u2'',
              m_conversationId = ''c1'', m_createdAt = 30\<rparr>]\<rparr>\<rparr>,
      [(ToClient ''s3'', ErrorEvent ''SEND_MESSAGE_ERROR'' (orElse (Some txt) ''Failed to send message'')
                           (Some ''c1''))],
      Inl (PrismaError ''P1017''))"
  by (simp add: handleSendMessage_def sock_def allConnected_sessions allConnected_store svc_defs
        talk_def trim_def isSpace_def units_def Let_def msgOf_def errorResponse_def plainError_def
        orElse_def)

theorem fanout_only_after_both_writes_witness:
  "fst (snd (handleSendMessage (plainError ''(client text)'') [MessageCreate \<mapsto> ''P2000''] allConnected
               ''c9'' ''m9'' 30 (sock ''s3'' ''u2'' ''bob'')
               (Some \<lparr>content = units ''yo'', pl_conversationId = Some ''c1'', pl_recipientId = None\<rparr>))) =
     [(ToClient ''s3'', ErrorEvent ''SEND_MESSAGE_ERROR'' ''(client text)'' (Some ''c1''))] \<and>
   messages (prisma (fst (handleSendMessage (plainError ''(client text)'') [MessageCreate \<mapsto> ''P2000'']
               allConnected ''c9'' ''m9'' 30 (sock ''s3'' ''u2'' ''bob'')
               (Some \<lparr>content = units ''yo'', pl_conversationId = Some ''c1'', pl_recipientId = None\<rparr>)))) =
     messages (prisma allConnected) \<and>
   fst (snd (handleSendMessage (plainError ''(client text)'') Map.empty allConnected
               ''c9'' ''m9'' 30 (sock ''s3'' ''u2'' ''bob'')
               (Some \<lparr>content = units ''yo'', pl_conversationId = Some ''c1'', pl_recipientId = None\<rparr>))) =
     [(ToRoom ''c1'',
       NewMessage \<lparr>mr_id = ''m9'', mr_content = units ''yo'', mr_authorId = ''u2'',
                   mr_conversationId = ''c1'', mr_createdAt = 30, mr_user = (''u2'', ''bob''),
                   mr_readReceipts = []\<rparr>),
      (ToClient ''s3'', MessageSent ''Message sent successfully'' ''m9'')] \<and>
   map m_id (messages (prisma (fst (handleSendMessage (plainError ''(client text)'') Map.empty allConnected
               ''c9'' ''m9'' 30 (sock ''s3'' ''u2'' ''bob'')
               (Some \<lparr>content = units ''yo'', pl_conversationId = Some ''c1'', pl_recipientId = None\<rparr>))))) =
     [''m1'', ''m2'', ''m3'', ''m9''] \<and>
   map lastMessageId (conversations (prisma (fst (handleSendMessage (plainError ''(client text)'') Map.empty
               allConnected ''c9'' ''m9'' 30 (sock ''s3'' ''u2'' ''bob'')
               (Some \<lparr>content = units ''yo'', pl_conversationId = Some ''c1'', pl_recipientId = None\<rparr>))))) =
     [Some ''m9'']"
proof -
  note bad = insert_fault_evaluated[of "''(client text)''"]
  note good = send_evaluated[of "''(client text)''" None]
  from fanout_only_after_both_writes[OF bad] have
    b: "messages (prisma allConnected) = messages (prisma allConnected)"
    by simp
  from fanout_only_after_both_writes[OF good] have
    g: "rowOf \<lparr>mr_id = ''m9'', mr_content = units ''yo'', mr_authorId = ''u2'',
                mr_conversationId = ''c1'', mr_createdAt = 30, mr_user = (''u2'', ''bob''),
                mr_readReceipts = []\<rparr> \<in>
         set (messages (prisma (fst (handleSendMessage (plainError ''(client text)'') Map.empty allConnected
               ''c9'' ''m9'' 30 (sock ''s3'' ''u2'' ''bob'')
               (Some \<lparr>content = units ''yo'', pl_conversationId = Some ''c1'', pl_recipientId = None\<rparr>)))))"
    by (simp add: good)
  show ?thesis
    using b g by (simp add: bad good orElse_def allConnected_store msgOf_def talk_def)
qed

text \<open>
  C8 as stated fails: \<open>u2\<close> sends \<open>yo\<close> to \<open>c1\<close>, the insert goes through and the pointer
  update throws (the connection is closed, \<open>P1017\<close>). The caller gets the error and no
  \<open>newMessage\<close> goes out, but the message \<open>m9\<close> is persisted and the pointer of \<open>c1\<close> is
  still on \<open>m3\<close>: the persisted state has applied in part, without fan-out.
\<close>

theorem pointer_fault_counterexample:
  "snd (snd (handleSendMessage (plainError ''(client text)'') [ConversationUpdate \<mapsto> ''P1017'']
               allConnected ''c9'' ''m9'' 30 (sock ''s3'' ''u2'' ''bob'')
               (Some \<lparr>content = units ''yo'', pl_conversationId = Some ''c1'', pl_recipientId = None\<rparr>))) =
     Inl (PrismaError ''P1017'') \<and>
   fst (snd (handleSendMessage (plainError ''(client text)'') [ConversationUpdate \<mapsto> ''P1017'']
               allConnected ''c9'' ''m9'' 30 (sock ''s3'' ''u2'' ''bob'')
               (Some \<lparr>content = units ''yo'', pl_conversationId = Some ''c1'', pl_recipientId = None\<rparr>))) =
     [(ToClient ''s3'', ErrorEvent ''SEND_MESSAGE_ERROR'' ''(client text)'' (Some ''c1''))] \<and>
   map m_id (messages (prisma (fst (handleSendMessage (plainError ''(client text)'')
               [ConversationUpdate \<mapsto> ''P1017''] allConnected ''c9'' ''m9'' 30 (sock ''s3'' ''u2'' ''bob'')
               (Some \<lparr>content = units ''yo'', pl_conversationId = Some ''c1'', pl_recipientId = None\<rparr>))))) =
     [''m1'', ''m2'', ''m3'', ''m9''] \<and>
   map lastMessageId (conversations (prisma (fst (handleSendMessage (plainError ''(client text)'')
               [ConversationUpdate \<mapsto> ''P1017''] allConnected ''c9'' ''m9'' 30 (sock ''s3'' ''u2'' ''bob'')
               (Some \<lparr>content = units ''yo'', pl_conversationId = Some ''c1'', pl_recipientId = None\<rparr>))))) =
     [Some ''m3'']"
  by (simp add: pointer_fault_evaluated orElse_def allConnected_store msgOf_def talk_def)

lemma create_ignores_recipient:
  assumes "truthy c"
  shows "MessagesService_create faults db nc nm now
           \<lparr>dto_content = t, dto_conversationId = c, dto_recipientId = r\<rparr> a =
         MessagesService_create faults db nc nm now
           \<lparr>dto_content = t, dto_conversationId = c, dto_recipientId = r'\<rparr> a"
  using assms by (simp add: MessagesService_create_def split: sum.splits prod.splits)

text \<open>
  C3, as amended. With neither \<open>conversationId\<close> nor \<open>recipientId\<close>, \<open>sendMessage\<close>
  fails with a \<open>VALIDATION_ERROR\<close>, emits the error to the caller and leaves the state as it
  was. With both, it does exactly what it does with the \<open>conversationId\<close> alone: the
  \<open>recipientId\<close> is ignored.
\<close>

theorem sendMessage_needs_one_target:
  "(\<not> truthy (pl_conversationId p) \<and> \<not> truthy (pl_recipientId p) \<longrightarrow>
      (\<exists>m. handleSendMessage asExt faults st newConvId newMsgId now client (Some p) =
            (st,
             [(ToClient (socketId client),
               errorResponse asExt (WsException ''VALIDATION_ERROR'' m)
                 ''SEND_MESSAGE_ERROR'' ''Failed to send message'' (pl_recipientId p))],
             Inl (WsException ''VALIDATION_ERROR'' m)))) \<and>
   (truthy (pl_conversationId p) \<and> truthy (pl_recipientId p) \<longrightarrow>
      handleSendMessage asExt faults st newConvId newMsgId now client (Some p) =
      handleSendMessage asExt faults st newConvId newMsgId now client
        (Some (p\<lparr>pl_recipientId := None\<rparr>)))"
proof (intro conjI impI)
  assume "\<not> truthy (pl_conversationId p) \<and> \<not> truthy (pl_recipientId p)"
  then show "\<exists>m. handleSendMessage asExt faults st newConvId newMsgId now client (Some p) =
            (st,
             [(ToClient (socketId client),
               errorResponse asExt (WsException ''VALIDATION_ERROR'' m)
                 ''SEND_MESSAGE_ERROR'' ''Failed to send message'' (pl_recipientId p))],
             Inl (WsException ''VALIDATION_ERROR'' m))"
    by (cases "content p = []") (simp_all add: handleSendMessage_def)
next
  assume both: "truthy (pl_conversationId p) \<and> truthy (pl_recipientId p)"
  have "MessagesService_create faults (prisma st) newConvId newMsgId now
          \<lparr>dto_content = trim (content p), dto_conversationId = pl_conversationId p,
            dto_recipientId = pl_recipientId p\<rparr> (the (socketToUser st (socketId client))) =
        MessagesService_create faults (prisma st) newConvId newMsgId now
          \<lparr>dto_content = trim (content p), dto_conversationId = pl_conversationId p,
            dto_recipientId = None\<rparr> (the (socketToUser st (socketId client)))"
    using both by (intro create_ignores_recipient) simp
  with both show "handleSendMessage asExt faults st newConvId newMsgId now client (Some p) =
      handleSendMessage asExt faults st newConvId newMsgId now client
        (Some (p\<lparr>pl_recipientId := None\<rparr>))"
    by (simp add: handleSendMessage_def)
qed

theorem sendMessage_needs_one_target_witness:
  "handleSendMessage (plainError ''(client text)'') Map.empty allConnected ''c9'' ''m9'' 30
       (sock ''s3'' ''u2'' ''bob'')
       (Some \<lparr>content = units ''yo'', pl_conversationId = None, pl_recipientId = None\<rparr>) =
     (allConnected,
      [(ToClient ''s3'',
        ErrorEvent ''SEND_MESSAGE_ERROR'' ''Either conversationId or recipientId is required'' None)],
      Inl (WsException ''VALIDATION_ERROR'' ''Either conversationId or recipientId is required'')) \<and>
   handleSendMessage (plainError ''(client text)'') Map.empty allConnected ''c9'' ''m9'' 30
       (sock ''s3'' ''u2'' ''bob'')
       (Some \<lparr>content = units ''yo'', pl_conversationId = Some ''c1'', pl_recipientId = Some ''u1''\<rparr>) =
   handleSendMessage (plainError ''(client text)'') Map.empty allConnected ''c9'' ''m9'' 30
       (sock ''s3'' ''u2'' ''bob'')
       (Some \<lparr>content = units ''yo'', pl_conversationId = Some ''c1'', pl_recipientId = None\<rparr>)"
proof -
  let ?h = "handleSendMessage (plainError ''(client text)'') Map.empty allConnected ''c9'' ''m9'' 30
       (sock ''s3'' ''u2'' ''bob'')"
  from sendMessage_needs_one_target[of
        "\<lparr>content = units ''yo'', pl_conversationId = None, pl_recipientId = None\<rparr>"
        "plainError ''(client text)''" Map.empty allConnected "''c9''" "''m9''" 30
        "sock ''s3'' ''u2'' ''bob''"]
  obtain m where
    "?h (Some \<lparr>content = units ''yo'', pl_conversationId = None, pl_recipientId = None\<rparr>) =
     (allConnected,
      [(ToClient (socketId (sock ''s3'' ''u2'' ''bob'')),
        errorResponse (plainError ''(client text)'') (WsException ''VALIDATION_ERROR'' m)
          ''SEND_MESSAGE_ERROR'' ''Failed to send message'' None)],
      Inl (WsException ''VALIDATION_ERROR'' m))"
    by auto
  moreover have
    "snd (snd (?h (Some \<lparr>content = units ''yo'', pl_conversationId = None, pl_recipientId = None\<rparr>))) =
       Inl (WsException ''VALIDATION_ERROR'' ''Either conversationId or recipientId is required'')"
    by (simp add: handleSendMessage_def units_def)
  ultimately have one:
    "?h (Some \<lparr>content = units ''yo'', pl_conversationId = None, pl_recipientId = None\<rparr>) =
     (allConnected,
      [(ToClient ''s3'',
        ErrorEvent ''SEND_MESSAGE_ERROR'' ''Either conversationId or recipientId is required'' None)],
      Inl (WsException ''VALIDATION_ERROR'' ''Either conversationId or recipientId is required''))"
    by (simp add: errorResponse_def orElse_def plainError_def sock_def)
  from sendMessage_needs_one_target[of
        "\<lparr>content = units ''yo'', pl_conversationId = Some ''c1'', pl_recipientId = Some ''u1''\<rparr>"
        "plainError ''(client text)''" Map.empty allConnected "''c9''" "''m9''" 30
        "sock ''s3'' ''u2'' ''bob''"]
  have two:
    "?h (Some \<lparr>content = units ''yo'', pl_conversationId = Some ''c1'', pl_recipientId = Some ''u1''\<rparr>) =
     ?h (Some \<lparr>content = units ''yo'', pl_conversationId = Some ''c1'', pl_recipientId = None\<rparr>)"
    by simp
  from one two show ?thesis by (rule conjI)
qed

text \<open>
  C3 as stated fails: \<open>u2\<close> sends \<open>yo\<close> with both \<open>conversationId = c1\<close> and
  \<open>recipientId = u1\<close>; the handler succeeds and the message \<open>m9\<close> is persisted.
\<close>

theorem both_targets_counterexample:
  "snd (snd (handleSendMessage (plainError ''(client text)'') Map.empty allConnected ''c9'' ''m9'' 30
       (sock ''s3'' ''u2'' ''bob'')
       (Some \<lparr>content = units ''yo'', pl_conversationId = Some ''c1'', pl_recipientId = Some ''u1''\<rparr>))) =
     Inr \<lparr>sa_success = True, sa_message =
       \<lparr>mr_id = ''m9'', mr_content = units ''yo'', mr_authorId = ''u2'', mr_conversationId = ''c1'',
         mr_createdAt = 30, mr_user = (''u2'', ''bob''), mr_readReceipts = []\<rparr>\<rparr> \<and>
   map m_id (messages (prisma (fst (handleSendMessage (plainError ''(client text)'') Map.empty allConnected
       ''c9'' ''m9'' 30 (sock ''s3'' ''u2'' ''bob'')
       (Some \<lparr>content = units ''yo'', pl_conversationId = Some ''c1'', pl_recipientId = Some ''u1''\<rparr>))))) =
     [''m1'', ''m2'', ''m3'', ''m9'']"
  by (simp add: send_evaluated allConnected_store msgOf_def)

section \<open>Joining a conversation\<close>

lemma join_subscribes_participant:
  assumes "conversationId p \<noteq> []" "socketToUser st (socketId client) = Some u" "u \<noteq> []"
      and "conversation_findFirst (prisma st) (conversationId p) u = Some c"
  shows "conversationId p \<in> rooms (fst (handleJoinConversation asExt st client (Some p))) (socketId client) \<and>
         snd (snd (handleJoinConversation asExt st client (Some p))) =
           Inr \<lparr>success = True, ack_conversationId = conversationId p\<rparr>"
  using assms
  by (simp add: handleJoinConversation_def ConversationsService_findOne_def client_join_def)

lemma leave_unsubscribes:
  assumes "conversationId p \<noteq> []" "socketToUser st (socketId client) = Some u" "u \<noteq> []"
  shows "conversationId p \<notin> rooms (fst (handleLeaveConversation asExt st client (Some p))) (socketId client)"
  using assms by (simp add: handleLeaveConversation_def client_leave_def)

lemma findFirst_None_iff:
  "conversation_findFirst db cid u = None \<longleftrightarrow>
     (\<forall>c \<in> set (conversations db). c_id c = cid \<longrightarrow> u \<notin> set (c_participants c))"
  by (auto simp: conversation_findFirst_def find_None_iff)

text \<open>
  C4, as amended. When the user of a registered connection is no participant of the
  conversation (no row with that id has the user among its participants), \<open>joinConversation\<close>
  is rejected with the \<open>NotFoundException\<close> of \<open>findOne\<close>, the caller gets one error event,
  and the state is unchanged: the connection joins no room.
\<close>

theorem join_rejects_non_participant:
  assumes payload: "conversationId p \<noteq> []"
      and session: "socketToUser st (socketId client) = Some u" "u \<noteq> []"
      and outsider: "conversation_findFirst (prisma st) (conversationId p) u = None"
  shows "handleJoinConversation asExt st client (Some p) =
           (st,
            [(ToClient (socketId client),
              errorResponse asExt (NotFoundException (notFoundMsg (conversationId p)))
                ''JOIN_CONVERSATION_ERROR'' ''Failed to join conversation''
                (Some (conversationId p)))],
            Inl (NotFoundException (notFoundMsg (conversationId p))))"
  using assms
  by (simp add: handleJoinConversation_def ConversationsService_findOne_def)

theorem join_rejects_non_participant_witness:
  "socketToUser allConnected ''s4'' = Some ''u3'' \<and>
   conversation_findFirst (prisma allConnected) ''c1'' ''u3'' = None \<and>
   handleJoinConversation (plainError ''(client text)'') allConnected (sock ''s4'' ''u3'' ''cy'') (Some \<lparr>conversationId = ''c1''\<rparr>) =
     (allConnected,
      [(ToClient ''s4'',
        ErrorEvent ''JOIN_CONVERSATION_ERROR'' ''Conversation with ID c1 not found'' (Some ''c1''))],
      Inl (NotFoundException ''Conversation with ID c1 not found''))"
  using join_rejects_non_participant[of "\<lparr>conversationId = ''c1''\<rparr>" allConnected
          "sock ''s4'' ''u3'' ''cy''" "''u3''" "plainError ''(client text)''"]
  by (simp add: allConnected_sessions allConnected_store sock_def conversation_findFirst_def talk_def
        errorResponse_def orElse_def plainError_def notFoundMsg_def)

text \<open>
  C4 as stated fails on the kind of the error: \<open>u3\<close>, no participant of \<open>c1\<close>, is told
  that the conversation is not found, which is no authorization error.
\<close>

theorem join_error_kind_counterexample:
  "snd (snd (handleJoinConversation (plainError ''(client text)'') allConnected (sock ''s4'' ''u3'' ''cy'')
               (Some \<lparr>conversationId = ''c1''\<rparr>))) =
     Inl (NotFoundException ''Conversation with ID c1 not found'') \<and>
   \<not> isAuthorizationError (NotFoundException ''Conversation with ID c1 not found'')"
  by (simp add: handleJoinConversation_def allConnected_sessions allConnected_store sock_def
        ConversationsService_findOne_def conversation_findFirst_def talk_def notFoundMsg_def
        isAuthorizationError_def)

section \<open>Presence and typing at disconnect\<close>

lemma conversationIdsOf_users [simp]:
  "conversationIdsOf (db\<lparr>users := us\<rparr>) u = conversationIdsOf db u"
  by (simp add: conversationIdsOf_def)

lemma fold_join_prisma:
  "prisma (fold (\<lambda>cid s. client_join s sid cid) cs st) = prisma st \<and>
   socketToUser (fold (\<lambda>cid s. client_join s sid cid) cs st) = socketToUser st"
  by (induction cs arbitrary: st) (simp_all add: client_join_def)

text \<open>
  C1, as amended. Presence follows the last connection event of the user, not the number
  of live connections. A connect of an authenticated client whose user row exists sets
  \<open>isOnline\<close> to true and registers the socket. A disconnect of a registered connection of
  \<open>u\<close> whose row exists sets \<open>isOnline\<close> to false and \<open>lastSeen\<close> to the time, removes the
  socket from the registry and broadcasts the change once to every conversation of \<open>u\<close>,
  whether or not other connections of \<open>u\<close> are live.
\<close>

theorem presence_follows_last_event:
  "(user client = Some pr \<and> sub pr \<noteq> [] \<and> users (prisma st) (sub pr) = Some row \<longrightarrow>
      users (prisma (fst (handleConnection st now client))) (sub pr) = Some (row\<lparr>isOnline := True\<rparr>) \<and>
      socketToUser (fst (handleConnection st now client)) (socketId client) = Some (sub pr)) \<and>
   (socketToUser st (socketId client) = Some u \<and> u \<noteq> [] \<and> users (prisma st) u = Some row \<longrightarrow>
      users (prisma (fst (handleDisconnect st now client))) =
        (users (prisma st))(u \<mapsto> row\<lparr>isOnline := False, lastSeen := Some now\<rparr>) \<and>
      socketToUser (fst (handleDisconnect st now client)) =
        (socketToUser st)(socketId client := None) \<and>
      snd (handleDisconnect st now client) =
        map (\<lambda>cid. (ToRoom cid, UserOnlineStatusChanged u False (Some now)))
            (conversationIdsOf (prisma st) u))"
proof (intro conjI impI)
  assume a: "user client = Some pr \<and> sub pr \<noteq> [] \<and> users (prisma st) (sub pr) = Some row"
  then show "users (prisma (fst (handleConnection st now client))) (sub pr) = Some (row\<lparr>isOnline := True\<rparr>)"
    by (simp add: handleConnection_def Let_def updateUserOnlineStatus_def prisma_user_update_def
                  fold_join_prisma split: prod.splits)
  from a show "socketToUser (fst (handleConnection st now client)) (socketId client) = Some (sub pr)"
    by (simp add: handleConnection_def Let_def updateUserOnlineStatus_def prisma_user_update_def
                  fold_join_prisma split: prod.splits)
next
  assume a: "socketToUser st (socketId client) = Some u \<and> u \<noteq> [] \<and> users (prisma st) u = Some row"
  then show "users (prisma (fst (handleDisconnect st now client))) =
        (users (prisma st))(u \<mapsto> row\<lparr>isOnline := False, lastSeen := Some now\<rparr>)"
    by (simp add: handleDisconnect_def Let_def updateUserOnlineStatus_def prisma_user_update_def
                  client_disconnect_def)
  from a show "socketToUser (fst (handleDisconnect st now client)) =
        (socketToUser st)(socketId client := None)"
    by (simp add: handleDisconnect_def Let_def updateUserOnlineStatus_def prisma_user_update_def
                  client_disconnect_def)
  from a show "snd (handleDisconnect st now client) =
        map (\<lambda>cid. (ToRoom cid, UserOnlineStatusChanged u False (Some now)))
            (conversationIdsOf (prisma st) u)"
    by (simp add: handleDisconnect_def Let_def updateUserOnlineStatus_def prisma_user_update_def
                  client_disconnect_def)
qed

theorem presence_follows_last_event_witness:
  "socketToUser twoSessions ''s1'' = Some ''u1'' \<and> socketToUser twoSessions ''s2'' = Some ''u1'' \<and>
   users (prisma twoSessions) ''u1'' = Some \<lparr>username = ''ann'', isOnline = True, lastSeen = None\<rparr> \<and>
   users (prisma (fst (handleDisconnect twoSessions 20 (sock ''s1'' ''u1'' ''ann'')))) ''u1'' =
     Some \<lparr>username = ''ann'', isOnline = False, lastSeen = Some 20\<rparr> \<and>
   snd (handleDisconnect twoSessions 20 (sock ''s1'' ''u1'' ''ann'')) =
     [(ToRoom ''c1'', UserOnlineStatusChanged ''u1'' False (Some 20))] \<and>
   users (prisma (fst (handleConnection twoSessions 20 (sock ''s1'' ''u1'' ''ann'')))) ''u1'' =
     Some \<lparr>username = ''ann'', isOnline = True, lastSeen = None\<rparr>"
proof -
  have h: "socketToUser twoSessions ''s1'' = Some ''u1''" "socketToUser twoSessions ''s2'' = Some ''u1''"
    "users (prisma twoSessions) ''u1'' = Some \<lparr>username = ''ann'', isOnline = True, lastSeen = None\<rparr>"
    "conversationIdsOf (prisma twoSessions) ''u1'' = [''c1'']"
    by (simp_all add: ex_defs gw_defs Let_def)
  from presence_follows_last_event[of "sock ''s1'' ''u1'' ''ann''" "\<lparr>sub = ''u1'', p_username = ''ann''\<rparr>"
        twoSessions "\<lparr>username = ''ann'', isOnline = True, lastSeen = None\<rparr>" 20 "''u1''"] h
  show ?thesis by (simp add: sock_def)
qed

text \<open>
  C1 as stated fails: \<open>u1\<close> has the sockets \<open>s1\<close> and \<open>s2\<close>; after \<open>s1\<close> disconnects,
  \<open>s2\<close> is still registered for \<open>u1\<close> and \<open>isOnline\<close> of \<open>u1\<close> is false.
\<close>

theorem presence_counterexample:
  "socketToUser (fst (handleDisconnect twoSessions 20 (sock ''s1'' ''u1'' ''ann''))) ''s2'' = Some ''u1'' \<and>
   map_option isOnline
     (users (prisma (fst (handleDisconnect twoSessions 20 (sock ''s1'' ''u1'' ''ann'')))) ''u1'') = Some False"
  by (simp add: ex_defs gw_defs Let_def)

lemma startTyping_marks:
  assumes "conversationId p \<noteq> []" "socketToUser st (socketId client) = Some u" "u \<noteq> []"
  shows "u \<in> (case typingUsers (fst (handleStartTyping st client (Some p))) (conversationId p) of
                 None \<Rightarrow> {} | Some s \<Rightarrow> s)"
  using assms by (simp add: handleStartTyping_def addTo_def split: option.splits)

lemma stopTyping_clears:
  assumes "conversationId p \<noteq> []" "socketToUser st (socketId client) = Some u" "u \<noteq> []"
  shows "u \<notin> (case typingUsers (fst (handleStopTyping st client (Some p))) (conversationId p) of
                 None \<Rightarrow> {} | Some s \<Rightarrow> s)"
  using assms by (simp add: handleStopTyping_def deleteFrom_def split: option.splits)

lemma disconnect_keeps_typing:
  "typingUsers (fst (handleDisconnect st now client)) = typingUsers st"
  by (simp add: handleDisconnect_def Let_def updateUserOnlineStatus_def client_disconnect_def
           split: sum.splits prod.splits)

text \<open>
  C2. The code at the failing input: \<open>u1\<close> starts typing in \<open>c1\<close> on its only socket
  \<open>s1\<close> and disconnects without stopping. The socket is gone from the registry, and the typing
  set of \<open>c1\<close> still holds \<open>u1\<close>.
\<close>

theorem typing_survives_disconnect:
  "typingUsers
     (fst (handleDisconnect
             (fst (handleStartTyping oneSession (sock ''s1'' ''u1'' ''ann'') (Some \<lparr>conversationId = ''c1''\<rparr>)))
             20 (sock ''s1'' ''u1'' ''ann''))) ''c1'' = Some {''u1''} \<and>
   socketToUser
     (fst (handleDisconnect
             (fst (handleStartTyping oneSession (sock ''s1'' ''u1'' ''ann'') (Some \<lparr>conversationId = ''c1''\<rparr>)))
             20 (sock ''s1'' ''u1'' ''ann''))) ''s1'' = None"
  by (simp add: ex_defs gw_defs Let_def handleStartTyping_def addTo_def)

end
